theory Spec2Isabelle
  imports Complex_Main "HOL-Library.Word" "HOL-Library.Monad_Syntax"
begin

section \<open>Binary reads over a DataView\<close>

text \<open>
  The decoders turn the Base64 text into a \<open>Uint8Array\<close> and read it through a
  \<open>DataView\<close>. A view is the list of its bytes. Every \<open>getXxx(offset, true)\<close> of the
  source reads little-endian and throws a \<open>RangeError\<close> when the read does not fit into
  the buffer; the thrown error is the value \<open>None\<close>.

  JavaScript numbers are modelled exactly: the integers read from the buffer are \<open>nat\<close>
  or \<open>int\<close>, and the quotients \<open>raw / 100.0\<close>, the device timestamps and the clock
  offsets are rationals. The rounding of IEEE doubles, \<open>NaN\<close> and the infinities are
  not part of the model; \<open>NaN\<close> appears only as the failed result of \<open>Number\<close>.
\<close>

type_synonym bytes = "8 word list"

definition getUint8 :: "bytes \<Rightarrow> nat \<Rightarrow> nat option" where
  "getUint8 view off = (if off + 1 \<le> length view then Some (unat (view ! off)) else None)"

definition uint16At :: "bytes \<Rightarrow> nat \<Rightarrow> nat" where
  "uint16At view off = unat (view ! off) + 256 * unat (view ! (off + 1))"

definition getUint16 :: "bytes \<Rightarrow> nat \<Rightarrow> nat option" where
  "getUint16 view off = (if off + 2 \<le> length view then Some (uint16At view off) else None)"

definition int16At :: "bytes \<Rightarrow> nat \<Rightarrow> int" where
  "int16At view off = sint (word_of_nat (uint16At view off) :: 16 word)"

definition getInt16 :: "bytes \<Rightarrow> nat \<Rightarrow> int option" where
  "getInt16 view off = (if off + 2 \<le> length view then Some (int16At view off) else None)"

definition uint32At :: "bytes \<Rightarrow> nat \<Rightarrow> nat" where
  "uint32At view off =
     unat (view ! off) + 256 * unat (view ! (off + 1)) +
     65536 * unat (view ! (off + 2)) + 16777216 * unat (view ! (off + 3))"

definition getUint32 :: "bytes \<Rightarrow> nat \<Rightarrow> nat option" where
  "getUint32 view off = (if off + 4 \<le> length view then Some (uint32At view off) else None)"

section \<open>decodeTempHumData\<close>

record tempHum =
  th_timestamp :: nat
  temperature :: rat
  humidity :: rat

text \<open>
  The body of \<open>decodeTempHumData\<close> after \<open>atob\<close>: three reads in the order of the source
  and the two divisions. \<open>None\<close> is the \<open>null\<close> returned by the \<open>catch\<close> block.
\<close>

definition decodeTempHumBytes :: "bytes \<Rightarrow> tempHum option" where
  "decodeTempHumBytes view = do {
     timestamp \<leftarrow> getUint32 view 0;
     tempRaw \<leftarrow> getInt16 view 4;
     humRaw \<leftarrow> getUint16 view 6;
     Some \<lparr> th_timestamp = timestamp,
            temperature = of_int tempRaw / 100,
            humidity = of_nat humRaw / 100 \<rparr>
   }"

section \<open>decodePiezoData\<close>

record sample =
  timestamp :: int
  val :: rat

record loopState =
  ls_offset :: nat
  ls_invalidCount :: nat
  ls_channels :: "sample list list"

record piezoDecoded =
  channels :: "sample list list"
  baseTimestamp :: nat
  sampleIntervalMs :: nat

text \<open>
  The inner loop \<open>for (let s = 0; s < numSamples; s++)\<close> of one channel. It runs with
  \<open>ch < numChannels\<close>, the length of \<open>channels\<close>, so \<open>channels[ch]\<close> is an array.
\<close>

function sampleLoop ::
  "bytes \<Rightarrow> nat \<Rightarrow> nat \<Rightarrow> nat \<Rightarrow> nat \<Rightarrow> nat \<Rightarrow> loopState \<Rightarrow> loopState option" where
  "sampleLoop view baseTs intervalMs numSamples ch s st =
     (if s < numSamples then
        (case getInt16 view (ls_offset st) of
           None \<Rightarrow> None
         | Some rawValue \<Rightarrow>
             let ts = int baseTs * 1000 + int s * int intervalMs;
                 st' = (if rawValue = - 32768
                        then st\<lparr> ls_invalidCount := ls_invalidCount st + 1 \<rparr>
                        else st\<lparr> ls_channels := (ls_channels st)
                               [ch := ls_channels st ! ch @
                                  [\<lparr> timestamp = ts, val = of_int rawValue / 100 \<rparr>]] \<rparr>)
             in sampleLoop view baseTs intervalMs numSamples ch (Suc s)
                  (st'\<lparr> ls_offset := ls_offset st' + 2 \<rparr>))
      else Some st)"
  by pat_completeness auto
termination
  by (relation "measure (\<lambda>(view, baseTs, intervalMs, numSamples, ch, s, st). numSamples - s)") auto

text \<open>The outer loop \<open>for (let ch = 0; ch < numChannels; ch++)\<close>.\<close>

function channelLoop ::
  "bytes \<Rightarrow> nat \<Rightarrow> nat \<Rightarrow> nat \<Rightarrow> nat \<Rightarrow> nat \<Rightarrow> loopState \<Rightarrow> loopState option" where
  "channelLoop view baseTs intervalMs numSamples numChannels ch st =
     (if ch < numChannels then
        (case sampleLoop view baseTs intervalMs numSamples ch 0 st of
           None \<Rightarrow> None
         | Some st' \<Rightarrow> channelLoop view baseTs intervalMs numSamples numChannels (Suc ch) st')
      else Some st)"
  by pat_completeness auto
termination
  by (relation "measure (\<lambda>(view, baseTs, intervalMs, numSamples, numChannels, ch, st).
         numChannels - ch)") auto

text \<open>
  The \<open>try\<close> block up to its \<open>return\<close>: the header, the empty channel arrays, and the two
  loops started with \<open>offset = 8\<close> and \<open>invalidCount = 0\<close>. The final loop state still
  holds \<open>invalidCount\<close>, which the source only logs.
\<close>

definition decodePiezoScan :: "bytes \<Rightarrow> (nat \<times> nat \<times> loopState) option" where
  "decodePiezoScan view = do {
     baseTs \<leftarrow> getUint32 view 0;
     intervalMs \<leftarrow> getUint16 view 4;
     numSamples \<leftarrow> getUint8 view 6;
     numChannels \<leftarrow> getUint8 view 7;
     st \<leftarrow> channelLoop view baseTs intervalMs numSamples numChannels 0
            \<lparr> ls_offset = 8, ls_invalidCount = 0, ls_channels = replicate numChannels [] \<rparr>;
     Some (baseTs, intervalMs, st)
   }"

definition decodePiezoBytes :: "bytes \<Rightarrow> piezoDecoded option" where
  "decodePiezoBytes view =
     (case decodePiezoScan view of
        None \<Rightarrow> None
      | Some (baseTs, intervalMs, st) \<Rightarrow>
          Some \<lparr> channels = ls_channels st, baseTimestamp = baseTs,
                 sampleIntervalMs = intervalMs \<rparr>)"

subsection \<open>The layout the decoder is compared with\<close>

text \<open>
  Written from the specification, to state what the loops compute: the value section
  read channel-major, position \<open>(ch, s)\<close> at byte offset \<open>8 + 2 * (ch * numSamples + s)\<close>;
  the samples a channel keeps, in the order of \<open>s\<close>; and the number of sentinel positions
  of a channel.
\<close>

definition spec_rawAt :: "bytes \<Rightarrow> nat \<Rightarrow> nat \<Rightarrow> nat \<Rightarrow> int" where
  "spec_rawAt view numSamples ch s = int16At view (8 + 2 * (ch * numSamples + s))"

definition spec_sample :: "bytes \<Rightarrow> nat \<Rightarrow> nat \<Rightarrow> nat \<Rightarrow> nat \<Rightarrow> nat \<Rightarrow> sample" where
  "spec_sample view baseTs intervalMs numSamples ch s =
     \<lparr> timestamp = int baseTs * 1000 + int s * int intervalMs,
       val = of_int (spec_rawAt view numSamples ch s) / 100 \<rparr>"

definition spec_channelSamples :: "bytes \<Rightarrow> nat \<Rightarrow> nat \<Rightarrow> nat \<Rightarrow> nat \<Rightarrow> sample list" where
  "spec_channelSamples view baseTs intervalMs numSamples ch =
     map (spec_sample view baseTs intervalMs numSamples ch)
       (filter (\<lambda>s. spec_rawAt view numSamples ch s \<noteq> - 32768) [0..<numSamples])"

definition spec_invalidIn :: "bytes \<Rightarrow> nat \<Rightarrow> nat \<Rightarrow> nat" where
  "spec_invalidIn view numSamples ch =
     length (filter (\<lambda>s. spec_rawAt view numSamples ch s = - 32768) [0..<numSamples])"

section \<open>JSON values and the JavaScript coercions of the handler\<close>

text \<open>
  \<open>handleMessage\<close> works on the value returned by \<open>JSON.parse\<close>. Objects keep their
  members in the order of the text; where a key occurs twice the last member wins, as in
  \<open>JSON.parse\<close>.
\<close>

datatype json =
    JNull
  | JBool bool
  | JNum rat
  | JStr string
  | JArr "json list"
  | JObj "(string \<times> json) list"

datatype error = TypeError

text \<open>
  A property read \<open>v.k\<close> or \<open>v[k]\<close> for the keys the handler uses (\<open>base64_sensordata\<close>,
  \<open>SensorN\<close>, \<open>ts\<close>, \<open>v\<close>, \<open>Temperature\<close>, \<open>Humidity\<close>): a \<open>TypeError\<close> on \<open>null\<close>, the
  member of an object, and \<open>undefined\<close> (\<open>None\<close>) on a missing member and on every
  boolean, number, string and array.
\<close>

definition getProp :: "json \<Rightarrow> string \<Rightarrow> error + json option" where
  "getProp v k =
     (case v of
        JNull \<Rightarrow> Inl TypeError
      | JObj kvs \<Rightarrow> Inr (map_of (rev kvs) k)
      | _ \<Rightarrow> Inr None)"

text \<open>Truthiness of a value that may be \<open>undefined\<close>.\<close>

fun truthy :: "json option \<Rightarrow> bool" where
  "truthy None = False"
| "truthy (Some JNull) = False"
| "truthy (Some (JBool b)) = b"
| "truthy (Some (JNum n)) = (n \<noteq> 0)"
| "truthy (Some (JStr s)) = (s \<noteq> [])"
| "truthy (Some (JArr xs)) = True"
| "truthy (Some (JObj kvs)) = True"

text \<open>
  \<open>Number(x)\<close> first converts an object or an array to a primitive. A parsed object
  inherits \<open>valueOf\<close> and \<open>toString\<close> from \<open>Object.prototype\<close>: \<open>valueOf\<close> returns the
  object itself, so the conversion goes on to \<open>toString\<close>, which gives the text
  \<open>[object Object]\<close>. A member named \<open>toString\<close> of the parsed object hides the inherited
  method and is never callable, so no method gives a primitive and the conversion throws
  a \<open>TypeError\<close>. An array is converted by \<open>join\<close>, which converts every element other
  than \<open>null\<close> to a string the same way, arrays inside arrays included.
\<close>

fun numberThrows :: "json \<Rightarrow> bool" where
  "numberThrows (JObj kvs) = (''toString'' \<in> set (map fst kvs))"
| "numberThrows (JArr xs) = (\<exists>x \<in> set xs. numberThrows x)"
| "numberThrows JNull = False"
| "numberThrows (JBool b) = False"
| "numberThrows (JNum n) = False"
| "numberThrows (JStr s) = False"

text \<open>
  \<open>Number(x)\<close>, with \<open>Inl TypeError\<close> where it throws and \<open>None\<close> for \<open>NaN\<close>. The
  conversion of a string, and of an array through its string form, is the parameter
  \<open>strNum\<close>; the text \<open>[object Object]\<close> of an object is not a number.
\<close>

fun toNumber :: "(json \<Rightarrow> rat option) \<Rightarrow> json option \<Rightarrow> error + rat option" where
  "toNumber strNum None = Inr None"
| "toNumber strNum (Some JNull) = Inr (Some 0)"
| "toNumber strNum (Some (JBool b)) = Inr (Some (if b then 1 else 0))"
| "toNumber strNum (Some (JNum n)) = Inr (Some n)"
| "toNumber strNum (Some (JStr s)) = Inr (strNum (JStr s))"
| "toNumber strNum (Some (JArr xs)) =
     (if numberThrows (JArr xs) then Inl TypeError else Inr (strNum (JArr xs)))"
| "toNumber strNum (Some (JObj kvs)) =
     (if numberThrows (JObj kvs) then Inl TypeError else Inr None)"

text \<open>\<open>x || 0\<close> on a number: \<open>NaN\<close> and \<open>0\<close> are falsy.\<close>

definition orZero :: "rat option \<Rightarrow> rat" where
  "orZero x = (case x of None \<Rightarrow> 0 | Some r \<Rightarrow> r)"

definition digitChar :: "nat \<Rightarrow> char" where
  "digitChar n = ''0123456789'' ! n"

function decimal :: "nat \<Rightarrow> string" where
  "decimal n = (if n < 10 then [digitChar n] else decimal (n div 10) @ [digitChar (n mod 10)])"
  by pat_completeness auto
termination
  by (relation "measure (\<lambda>n. n)") auto

text \<open>The template string \<open>`Sensor${i + 1}`\<close>.\<close>

definition sensorKey :: "nat \<Rightarrow> string" where
  "sensorKey i = ''Sensor'' @ decimal (i + 1)"

section \<open>The dashboard state\<close>

text \<open>
  A plotted point \<open>{ time, value }\<close>; the field \<open>value\<close> is \<open>pval\<close> here and \<open>val\<close> in a
  decoded sample. The state holds what \<open>handleMessage\<close> reads and writes: the sixteen
  channel windows, the gauges, the message counters and the two refs of the clock-offset
  average. The preview kept in \<open>lastMessage\<close> and the console output are left out.
\<close>

record point =
  time :: rat
  pval :: rat

record state =
  piezo :: "string \<rightharpoonup> point list"
  temp1 :: rat
  hum1 :: rat
  temp2 :: rat
  hum2 :: rat
  messageCount :: nat
  topicMessages :: "string \<rightharpoonup> nat"
  offsetRef :: rat
  offsetSamples :: "rat list"

datatype decoderMode = Original | Base64

definition SENSOR_KEYS :: "string list" where
  "SENSOR_KEYS =
     [''A1'', ''B1'', ''C1'', ''A2'',
      ''B2'', ''C2'', ''D1'', ''E1'',
      ''A3'', ''B3'', ''C3'', ''A4'',
      ''B4'', ''C4'', ''D2'', ''E2'']"

definition makeEmptyState :: "string \<rightharpoonup> point list" where
  "makeEmptyState = map_of (map (\<lambda>k. (k, [])) SENSOR_KEYS)"

definition initialState :: state where
  "initialState =
     \<lparr> piezo = makeEmptyState, temp1 = 0, hum1 = 0, temp2 = 0, hum2 = 0,
       messageCount = 0, topicMessages = Map.empty, offsetRef = 0, offsetSamples = [] \<rparr>"

definition WINDOW_MS :: rat where
  "WINDOW_MS = 20000"

definition OFFSET_SAMPLE_SIZE :: nat where
  "OFFSET_SAMPLE_SIZE = 20"

definition TOPIC_MAP :: "string \<rightharpoonup> string list" where
  "TOPIC_MAP = [''iot/piezo'' \<mapsto> [''A1'', ''B1'', ''C1'', ''A2'']]"

section \<open>The decoders on Base64 text\<close>

text \<open>
  \<open>atob\<close> is a parameter: it takes the value of \<open>base64_sensordata\<close> to the bytes of the
  binary string, and is \<open>None\<close> where the browser's \<open>atob\<close> throws. Both decoders catch
  every error and return \<open>null\<close>.
\<close>

definition decodePiezoData :: "(json \<Rightarrow> bytes option) \<Rightarrow> json \<Rightarrow> piezoDecoded option" where
  "decodePiezoData atob base64Data =
     (case atob base64Data of None \<Rightarrow> None | Some view \<Rightarrow> decodePiezoBytes view)"

definition decodeTempHumData :: "(json \<Rightarrow> bytes option) \<Rightarrow> json \<Rightarrow> tempHum option" where
  "decodeTempHumData atob base64Data =
     (case atob base64Data of None \<Rightarrow> None | Some view \<Rightarrow> decodeTempHumBytes view)"

section \<open>The channel windows\<close>

text \<open>\<open>prev[mappedKey] || []\<close> and \<open>[...oldArr, ...newPoints].filter(d => now - d.time <= WINDOW_MS)\<close>.\<close>

definition oldArrOf :: "(string \<rightharpoonup> point list) \<Rightarrow> string \<Rightarrow> point list" where
  "oldArrOf prev mappedKey = (case prev mappedKey of None \<Rightarrow> [] | Some a \<Rightarrow> a)"

definition combined :: "rat \<Rightarrow> point list \<Rightarrow> point list \<Rightarrow> point list" where
  "combined now oldArr newPoints = filter (\<lambda>d. now - time d \<le> WINDOW_MS) (oldArr @ newPoints)"

definition toPoint :: "sample \<Rightarrow> point" where
  "toPoint p = \<lparr> time = of_int (timestamp p), pval = val p \<rparr>"

text \<open>
  The updater passed to \<open>setPiezo\<close> in Base64 mode: the loop over
  \<open>i < Math.min(mapping.length, decoded.channels.length)\<close>, started with a copy of \<open>prev\<close>.
\<close>

function piezoBinaryLoop ::
  "rat \<Rightarrow> string list \<Rightarrow> sample list list \<Rightarrow> (string \<rightharpoonup> point list) \<Rightarrow> nat \<Rightarrow>
   (string \<rightharpoonup> point list) \<Rightarrow> (string \<rightharpoonup> point list)" where
  "piezoBinaryLoop now mapping chans prev i updated =
     (if i < min (length mapping) (length chans) then
        let mappedKey = mapping ! i;
            oldArr = oldArrOf prev mappedKey;
            newPoints = map toPoint (chans ! i)
        in piezoBinaryLoop now mapping chans prev (Suc i)
             (updated(mappedKey \<mapsto> combined now oldArr newPoints))
      else updated)"
  by pat_completeness auto
termination
  by (relation "measure (\<lambda>(now, mapping, chans, prev, i, updated).
         min (length mapping) (length chans) - i)") auto

definition setPiezoBinary ::
  "rat \<Rightarrow> string list \<Rightarrow> sample list list \<Rightarrow> (string \<rightharpoonup> point list) \<Rightarrow>
   (string \<rightharpoonup> point list)" where
  "setPiezoBinary now mapping chans prev = piezoBinaryLoop now mapping chans prev 0 prev"

section \<open>The clock-offset average\<close>

text \<open>
  The body of the \<open>if\<close> in the offset loop, on the pair of refs
  \<open>(offsetSamples.current, offsetRef.current)\<close>: push, shift when longer than
  \<open>OFFSET_SAMPLE_SIZE\<close>, and store the mean of what is kept.
\<close>

definition observe :: "rat \<Rightarrow> rat list \<times> rat \<Rightarrow> rat list \<times> rat" where
  "observe offsetSample refs =
     (let pushed = fst refs @ [offsetSample];
          kept = (if length pushed > OFFSET_SAMPLE_SIZE then tl pushed else pushed);
          avg = foldl (+) 0 kept / of_nat (length kept)
      in (kept, avg))"

text \<open>The refs after a sequence of offset samples, from \<open>useRef([])\<close> and \<open>useRef(0)\<close>.\<close>

definition observeAll :: "rat list \<Rightarrow> rat list \<times> rat" where
  "observeAll xs = foldl (\<lambda>refs x. observe x refs) ([], 0) xs"

text \<open>
  The test \<open>sample && typeof sample.ts === 'number'\<close>: the device timestamp when it
  holds, \<open>None\<close> when it does not.
\<close>

definition sampleTs :: "json option \<Rightarrow> error + rat option" where
  "sampleTs sample =
     (case sample of
        None \<Rightarrow> Inr None
      | Some sv \<Rightarrow>
          if truthy (Some sv) then
            (case getProp sv ''ts'' of
               Inl e \<Rightarrow> Inl e
             | Inr (Some (JNum ts)) \<Rightarrow> Inr (Some ts)
             | Inr _ \<Rightarrow> Inr None)
          else Inr None)"

text \<open>\<open>Array.isArray(d) ? d[0] : d\<close>.\<close>

definition firstSample :: "json option \<Rightarrow> json option" where
  "firstSample d =
     (case d of
        Some (JArr xs) \<Rightarrow> (case xs of [] \<Rightarrow> None | x # _ \<Rightarrow> Some x)
      | _ \<Rightarrow> d)"

text \<open>The loop \<open>for (let i = 0; i < 4; i++)\<close> that ends at the first device timestamp.\<close>

function offsetLoop ::
  "json \<Rightarrow> rat \<Rightarrow> nat \<Rightarrow> rat list \<times> rat \<Rightarrow> error + rat list \<times> rat" where
  "offsetLoop data browserNow i refs =
     (if i < 4 then
        (case getProp data (sensorKey i) of
           Inl e \<Rightarrow> Inl e
         | Inr d \<Rightarrow>
             (case sampleTs (firstSample d) of
                Inl e \<Rightarrow> Inl e
              | Inr (Some ts) \<Rightarrow> Inr (observe (ts - browserNow) refs)
              | Inr None \<Rightarrow> offsetLoop data browserNow (Suc i) refs))
      else Inr refs)"
  by pat_completeness auto
termination
  by (relation "measure (\<lambda>(data, browserNow, i, refs). 4 - i)") auto

section \<open>The legacy updater\<close>

text \<open>
  One element of \<open>arr.map(obj => ({ time: ..., value: Number(obj.v) || 0 }))\<close>. Reading
  \<open>obj.ts\<close> throws when \<open>obj\<close> is \<open>null\<close>, and \<open>Number(obj.v)\<close> throws where
  \<open>toNumber\<close> does.
\<close>

definition legacyPoint :: "(json \<Rightarrow> rat option) \<Rightarrow> rat \<Rightarrow> rat \<Rightarrow> json \<Rightarrow> error + point" where
  "legacyPoint strNum offs now obj =
     (case getProp obj ''ts'' of
        Inl e \<Rightarrow> Inl e
      | Inr ts \<Rightarrow>
          (case getProp obj ''v'' of
             Inl e \<Rightarrow> Inl e
           | Inr v \<Rightarrow>
               (case toNumber strNum v of
                  Inl e \<Rightarrow> Inl e
                | Inr n \<Rightarrow>
                    Inr \<lparr> time = (case ts of Some (JNum t) \<Rightarrow> t - offs | _ \<Rightarrow> now),
                          pval = orZero n \<rparr>)))"

text \<open>
  The readings on which that element throws: \<open>null\<close>, and a reading whose \<open>v\<close> is an
  object with a member \<open>toString\<close> or an array that holds one.
\<close>

definition readingThrows :: "json \<Rightarrow> bool" where
  "readingThrows obj =
     (case getProp obj ''v'' of
        Inl e \<Rightarrow> True
      | Inr None \<Rightarrow> False
      | Inr (Some v) \<Rightarrow> numberThrows v)"

fun mapPoints :: "(json \<Rightarrow> error + point) \<Rightarrow> json list \<Rightarrow> error + point list" where
  "mapPoints f [] = Inr []"
| "mapPoints f (obj # arr) =
     (case f obj of
        Inl e \<Rightarrow> Inl e
      | Inr p \<Rightarrow> (case mapPoints f arr of Inl e \<Rightarrow> Inl e | Inr ps \<Rightarrow> Inr (p # ps)))"

text \<open>\<open>Array.isArray(raw) ? raw : (raw ? [raw] : [])\<close>.\<close>

definition readingsOf :: "json option \<Rightarrow> json list" where
  "readingsOf raw =
     (case raw of
        None \<Rightarrow> []
      | Some (JArr xs) \<Rightarrow> xs
      | Some v \<Rightarrow> if truthy (Some v) then [v] else [])"

text \<open>
  The updater passed to \<open>setPiezo\<close> in the original mode: the loop over
  \<open>i < mapping.length\<close>. An error thrown inside it is not caught by the \<open>try\<close> of
  \<open>handleMessage\<close>.
\<close>

function piezoLegacyLoop ::
  "(json \<Rightarrow> rat option) \<Rightarrow> rat \<Rightarrow> rat \<Rightarrow> string list \<Rightarrow> json \<Rightarrow> (string \<rightharpoonup> point list) \<Rightarrow>
   nat \<Rightarrow> (string \<rightharpoonup> point list) \<Rightarrow> error + (string \<rightharpoonup> point list)" where
  "piezoLegacyLoop strNum offs now mapping data prev i updated =
     (if i < length mapping then
        let mappedKey = mapping ! i in
        (case getProp data (sensorKey i) of
           Inl e \<Rightarrow> Inl e
         | Inr raw \<Rightarrow>
             let oldArr = oldArrOf prev mappedKey;
                 arr = readingsOf raw
             in (case mapPoints (legacyPoint strNum offs now) arr of
                   Inl e \<Rightarrow> Inl e
                 | Inr newPoints \<Rightarrow>
                     piezoLegacyLoop strNum offs now mapping data prev (Suc i)
                       (updated(mappedKey \<mapsto> combined now oldArr newPoints))))
      else Inr updated)"
  by pat_completeness auto
termination
  by (relation "measure (\<lambda>(strNum, offs, now, mapping, data, prev, i, updated).
         length mapping - i)") auto

definition setPiezoLegacy ::
  "(json \<Rightarrow> rat option) \<Rightarrow> rat \<Rightarrow> rat \<Rightarrow> string list \<Rightarrow> json \<Rightarrow> (string \<rightharpoonup> point list) \<Rightarrow>
   error + (string \<rightharpoonup> point list)" where
  "setPiezoLegacy strNum offs now mapping data prev =
     piezoLegacyLoop strNum offs now mapping data prev 0 prev"

section \<open>handleMessage\<close>

text \<open>
  The condition \<open>decoderMode === 'base64' && data.base64_sensordata\<close>: the Base64 text
  when the binary branch is taken, \<open>None\<close> when the original branch is.
\<close>

definition useBase64 :: "decoderMode \<Rightarrow> json \<Rightarrow> error + json option" where
  "useBase64 mode data =
     (if mode = Base64 then
        (case getProp data ''base64_sensordata'' of
           Inl e \<Rightarrow> Inl e
         | Inr b \<Rightarrow> if truthy b then Inr b else Inr None)
      else Inr None)"

text \<open>
  The branch \<open>topic in TOPIC_MAP\<close>. \<open>parsed\<close> is the result of
  \<open>JSON.parse(message.toString())\<close>, \<open>None\<close> when it throws. Every error of the \<open>try\<close>
  block ends in its \<open>catch\<close>, which only logs, so the state stays as it was; an error of
  the legacy updater is the result \<open>Inl\<close>. \<open>browserNow\<close> is the clock at the start of
  the handler, \<open>now\<close> the clock read inside the updater.
\<close>

definition handlePiezo ::
  "decoderMode \<Rightarrow> (json \<Rightarrow> bytes option) \<Rightarrow> (json \<Rightarrow> rat option) \<Rightarrow> rat \<Rightarrow> rat \<Rightarrow>
   string list \<Rightarrow> json option \<Rightarrow> state \<Rightarrow> error + state" where
  "handlePiezo mode atob strNum browserNow now mapping parsed st =
     (case parsed of
        None \<Rightarrow> Inr st
      | Some data \<Rightarrow>
          (case useBase64 mode data of
             Inl e \<Rightarrow> Inr st
           | Inr (Some base64) \<Rightarrow>
               (case decodePiezoData atob base64 of
                  None \<Rightarrow> Inr st
                | Some decoded \<Rightarrow>
                    Inr (st\<lparr> piezo := setPiezoBinary now mapping (channels decoded) (piezo st) \<rparr>))
           | Inr None \<Rightarrow>
               (case offsetLoop data browserNow 0 (offsetSamples st, offsetRef st) of
                  Inl e \<Rightarrow> Inr st
                | Inr refs \<Rightarrow>
                    (case setPiezoLegacy strNum (snd refs) now mapping data (piezo st) of
                       Inl e \<Rightarrow> Inl e
                     | Inr updated \<Rightarrow>
                         Inr (st\<lparr> offsetSamples := fst refs, offsetRef := snd refs,
                                  piezo := updated \<rparr>)))))"

text \<open>
  The branch \<open>topic === 'iot/temp'\<close>. Its two \<open>Number\<close> conversions run inside the
  \<open>try\<close>; when the second one throws, \<open>setTemp1\<close> has already been called.
\<close>

definition handleTemp ::
  "decoderMode \<Rightarrow> (json \<Rightarrow> bytes option) \<Rightarrow> (json \<Rightarrow> rat option) \<Rightarrow> json option \<Rightarrow> state \<Rightarrow>
   error + state" where
  "handleTemp mode atob strNum parsed st =
     (case parsed of
        None \<Rightarrow> Inr st
      | Some data \<Rightarrow>
          (case useBase64 mode data of
             Inl e \<Rightarrow> Inr st
           | Inr (Some base64) \<Rightarrow>
               (case decodeTempHumData atob base64 of
                  None \<Rightarrow> Inr st
                | Some decoded \<Rightarrow>
                    Inr (st\<lparr> temp1 := temperature decoded, hum1 := humidity decoded \<rparr>))
           | Inr None \<Rightarrow>
               (case getProp data ''Temperature'' of
                  Inl e \<Rightarrow> Inr st
                | Inr t \<Rightarrow>
                    (case toNumber strNum t of
                       Inl e \<Rightarrow> Inr st
                     | Inr tn \<Rightarrow>
                         let st1 = st\<lparr> temp1 := orZero tn \<rparr> in
                         (case getProp data ''Humidity'' of
                            Inl e \<Rightarrow> Inr st1
                          | Inr h \<Rightarrow>
                              (case toNumber strNum h of
                                 Inl e \<Rightarrow> Inr st1
                               | Inr hn \<Rightarrow> Inr (st1\<lparr> hum1 := orZero hn \<rparr>)))))))"

text \<open>
  The handler. \<open>topic in TOPIC_MAP\<close> is membership among the keys the object literal
  declares; the client subscribes to \<open>iot/piezo\<close> and \<open>iot/temp\<close> only.
\<close>

definition handleMessage ::
  "decoderMode \<Rightarrow> (json \<Rightarrow> bytes option) \<Rightarrow> (json \<Rightarrow> rat option) \<Rightarrow> rat \<Rightarrow> rat \<Rightarrow>
   string \<Rightarrow> json option \<Rightarrow> state \<Rightarrow> error + state" where
  "handleMessage mode atob strNum browserNow now topic parsed st =
     (let counted = st\<lparr> messageCount := messageCount st + 1,
                         topicMessages := (topicMessages st)
                           (topic \<mapsto> (case topicMessages st topic of None \<Rightarrow> 0 | Some c \<Rightarrow> c) + 1) \<rparr>
      in case TOPIC_MAP topic of
           Some mapping \<Rightarrow> handlePiezo mode atob strNum browserNow now mapping parsed counted
         | None \<Rightarrow>
             if topic = ''iot/temp'' then handleTemp mode atob strNum parsed counted
             else Inr counted)"

text \<open>The part of the state that holds telemetry: the windows, the gauges and the offset refs.\<close>

definition telemetry ::
  "state \<Rightarrow> (string \<rightharpoonup> point list) \<times> rat \<times> rat \<times> rat \<times> rat \<times> rat list \<times> rat" where
  "telemetry st =
     (piezo st, temp1 st, hum1 st, temp2 st, hum2 st, offsetSamples st, offsetRef st)"

section \<open>Example records\<close>

text \<open>
  The temperature/humidity record of the format documentation, and a piezo batch of two
  channels with two samples each, sent every 100 ms: channel 0 holds 1.00 mV and the
  sentinel, channel 1 holds 2.50 mV and -0.01 mV.
\<close>

definition exampleTempHum :: bytes where
  "exampleTempHum = [0x59, 0x9A, 0x46, 0x67, 0x29, 0x09, 0x85, 0x1A]"

definition examplePiezo :: bytes where
  "examplePiezo =
     [0x59, 0x9A, 0x46, 0x67, 100, 0, 2, 2,
      100, 0, 0x00, 0x80,
      0xFA, 0, 0xFF, 0xFF]"

definition examplePiezoDecoded :: piezoDecoded where
  "examplePiezoDecoded =
     \<lparr> channels =
         [[\<lparr> timestamp = 1732680281000, val = 1 \<rparr>],
          [\<lparr> timestamp = 1732680281000, val = 5 / 2 \<rparr>,
           \<lparr> timestamp = 1732680281100, val = - 1 / 100 \<rparr>]],
       baseTimestamp = 1732680281, sampleIntervalMs = 100 \<rparr>"

text \<open>
  A batch of five channels with one sample each (0.01 mV to 0.05 mV), one channel more than
  the topic's mapping has keys; the Base64 texts of the three records, with a stand-in for
  \<open>atob\<close> that knows them and throws on every other text; and the envelopes that carry
  them.
\<close>

definition examplePiezo5 :: bytes where
  "examplePiezo5 =
     [0x59, 0x9A, 0x46, 0x67, 100, 0, 1, 5,
      1, 0, 2, 0, 3, 0, 4, 0, 5, 0]"

definition examplePiezo5Decoded :: piezoDecoded where
  "examplePiezo5Decoded =
     \<lparr> channels =
         [[\<lparr> timestamp = 1732680281000, val = 1 / 100 \<rparr>],
          [\<lparr> timestamp = 1732680281000, val = 2 / 100 \<rparr>],
          [\<lparr> timestamp = 1732680281000, val = 3 / 100 \<rparr>],
          [\<lparr> timestamp = 1732680281000, val = 4 / 100 \<rparr>],
          [\<lparr> timestamp = 1732680281000, val = 5 / 100 \<rparr>]],
       baseTimestamp = 1732680281, sampleIntervalMs = 100 \<rparr>"

definition exampleAtob :: "json \<Rightarrow> bytes option" where
  "exampleAtob v =
     (if v = JStr ''WZpGZ2QAAQUBAAIAAwAEAAUA'' then Some examplePiezo5
      else if v = JStr ''WZpGZ2QAAgJkAACA+gD//w=='' then Some examplePiezo
      else if v = JStr ''WZpGZykJhRo='' then Some exampleTempHum
      else None)"

definition exampleEnvelope5 :: json where
  "exampleEnvelope5 =
     JObj [(''ts'', JNum 1732680281000), (''time_interval'', JNum 100),
           (''base64_sensordata'', JStr ''WZpGZ2QAAQUBAAIAAwAEAAUA'')]"

definition exampleBadEnvelope :: json where
  "exampleBadEnvelope = JObj [(''base64_sensordata'', JStr ''!'')]"

text \<open>The 8-byte temperature/humidity record sent where a piezo batch is expected.\<close>

definition exampleTruncatedEnvelope :: json where
  "exampleTruncatedEnvelope = JObj [(''base64_sensordata'', JStr ''WZpGZykJhRo='')]"

text \<open>
  A legacy message: \<open>Sensor1\<close> is one reading with a device timestamp, \<open>Sensor2\<close> an array of
  a reading without \<open>ts\<close> whose \<open>v\<close> is \<open>true\<close> and a reading with a very old \<open>ts\<close> whose
  \<open>v\<close> is not a number; \<open>Sensor3\<close> and \<open>Sensor4\<close> are missing. The stand-in for the string
  conversion of \<open>Number\<close> converts the text \<open>12.5\<close> only.
\<close>

definition exampleLegacy :: json where
  "exampleLegacy =
     JObj [(''Sensor1'', JObj [(''ts'', JNum 1732680281500), (''v'', JNum 3)]),
           (''Sensor2'', JArr [JObj [(''v'', JBool True)],
                              JObj [(''ts'', JNum 5), (''v'', JStr ''abc'')]])]"

text \<open>A legacy message whose reading has an object with a member \<open>toString\<close> as \<open>v\<close>.\<close>

definition exampleToString :: json where
  "exampleToString = JObj [(''Sensor1'', JObj [(''v'', JObj [(''toString'', JNum 1)])])]"

definition exampleStrNum :: "json \<Rightarrow> rat option" where
  "exampleStrNum v = (if v = JStr ''12.5'' then Some (25 / 2) else None)"

definition exampleNow :: rat where
  "exampleNow = 1732680282000"

text \<open>A store whose window \<open>A1\<close> holds a point older than 20 s and a recent one.\<close>

definition examplePrev :: "string \<rightharpoonup> point list" where
  "examplePrev =
     makeEmptyState(''A1'' \<mapsto> [\<lparr> time = 1732680200000, pval = 9 \<rparr>,
                                 \<lparr> time = 1732680280000, pval = 7 \<rparr>])"

definition exampleState :: state where
  "exampleState = initialState\<lparr> piezo := examplePrev \<rparr>"

section \<open>Properties of the binary decoders\<close>

declare sampleLoop.simps [simp del] channelLoop.simps [simp del]

lemma sampleLoop_stop: "\<not> s < ns \<Longrightarrow> sampleLoop view bt iv ns ch s st = Some st"
  by (simp add: sampleLoop.simps)

lemma sampleLoop_fail:
  "s < ns \<Longrightarrow> getInt16 view (ls_offset st) = None \<Longrightarrow> sampleLoop view bt iv ns ch s st = None"
  by (simp add: sampleLoop.simps)

lemma sampleLoop_invalid:
  "s < ns \<Longrightarrow> getInt16 view (ls_offset st) = Some (- 32768) \<Longrightarrow>
   sampleLoop view bt iv ns ch s st =
   sampleLoop view bt iv ns ch (Suc s)
     (st\<lparr> ls_invalidCount := ls_invalidCount st + 1, ls_offset := ls_offset st + 2 \<rparr>)"
  by (subst sampleLoop.simps) simp

lemma sampleLoop_valid:
  "s < ns \<Longrightarrow> getInt16 view (ls_offset st) = Some raw \<Longrightarrow> raw \<noteq> - 32768 \<Longrightarrow>
   sampleLoop view bt iv ns ch s st =
   sampleLoop view bt iv ns ch (Suc s)
     (st\<lparr> ls_channels := (ls_channels st)
            [ch := ls_channels st ! ch @
               [\<lparr> timestamp = int bt * 1000 + int s * int iv, val = of_int raw / 100 \<rparr>]],
          ls_offset := ls_offset st + 2 \<rparr>)"
  by (subst sampleLoop.simps) (simp add: Let_def)

lemma sampleLoop_offset:
  "sampleLoop view bt iv ns ch s st = Some st' \<Longrightarrow>
   ls_offset st' = ls_offset st + 2 * (ns - s) \<and> (s < ns \<longrightarrow> ls_offset st' \<le> length view)"
proof (induction "ns - s" arbitrary: s st)
  case 0
  then show ?case by (simp add: sampleLoop_stop)
next
  case (Suc n)
  then have lt: "s < ns" by simp
  show ?case
  proof (cases "getInt16 view (ls_offset st)")
    case None
    with lt Suc.prems show ?thesis by (simp add: sampleLoop_fail)
  next
    case (Some raw)
    then have fit: "ls_offset st + 2 \<le> length view"
      by (simp add: getInt16_def split: if_splits)
    have n: "n = ns - Suc s" using Suc.hyps(2) by simp
    show ?thesis
    proof (cases "raw = - 32768")
      case True
      with Some lt Suc.prems have
        "sampleLoop view bt iv ns ch (Suc s)
           (st\<lparr> ls_invalidCount := ls_invalidCount st + 1, ls_offset := ls_offset st + 2 \<rparr>) = Some st'"
        by (simp add: sampleLoop_invalid)
      from Suc.hyps(1) [OF n this] lt fit show ?thesis by auto
    next
      case False
      with Some lt Suc.prems have
        "sampleLoop view bt iv ns ch (Suc s)
          (st\<lparr> ls_channels := (ls_channels st)
            [ch := ls_channels st ! ch @
               [\<lparr> timestamp = int bt * 1000 + int s * int iv, val = of_int raw / 100 \<rparr>]],
          ls_offset := ls_offset st + 2 \<rparr>) = Some st'"
        by (simp add: sampleLoop_valid)
      from Suc.hyps(1) [OF n this] lt fit show ?thesis by auto
    qed
  qed
qed

lemma channelLoop_offset:
  "channelLoop view bt iv ns nc ch st = Some st' \<Longrightarrow> ls_offset st \<le> length view \<Longrightarrow>
   ls_offset st' = ls_offset st + 2 * ns * (nc - ch) \<and> ls_offset st' \<le> length view"
proof (induction "nc - ch" arbitrary: ch st)
  case 0
  then show ?case by (simp add: channelLoop.simps)
next
  case (Suc n)
  then have lt: "ch < nc" by simp
  have n: "n = nc - Suc ch" using Suc.hyps(2) by simp
  from Suc.prems(1) lt obtain st1 where
    s1: "sampleLoop view bt iv ns ch 0 st = Some st1" and
    s2: "channelLoop view bt iv ns nc (Suc ch) st1 = Some st'"
    by (auto simp: channelLoop.simps [of view bt iv ns nc ch] split: option.splits)
  from sampleLoop_offset [OF s1] have
    o1: "ls_offset st1 = ls_offset st + 2 * ns" and o2: "0 < ns \<longrightarrow> ls_offset st1 \<le> length view"
    by auto
  from o1 o2 Suc.prems(2) have le1: "ls_offset st1 \<le> length view" by (cases ns) auto
  from Suc.hyps(1) [OF n s2 le1] have
    "ls_offset st' = ls_offset st1 + 2 * ns * (nc - Suc ch)" "ls_offset st' \<le> length view"
    by auto
  moreover have "2 * ns + 2 * ns * (nc - Suc ch) = 2 * ns * (nc - ch)"
    using lt by (metis Suc_diff_Suc mult_Suc_right)
  ultimately show ?case using o1 by simp
qed

lemma decodePiezoScan_length:
  "decodePiezoScan view = Some (bt, iv, st) \<Longrightarrow>
   8 + 2 * unat (view ! 6) * unat (view ! 7) \<le> length view"
  apply (simp add: decodePiezoScan_def getUint32_def getUint16_def getUint8_def
      split: if_splits Option.bind_splits)
  apply (drule channelLoop_offset)
   apply simp
  apply simp
  done

lemma sampleLoop_run:
  assumes "ls_offset st = b + 2 * s" "s \<le> ns" "b + 2 * ns \<le> length view"
    "ch < length (ls_channels st)"
  shows "sampleLoop view bt iv ns ch s st =
     Some (st\<lparr> ls_invalidCount := ls_invalidCount st +
                  length (filter (\<lambda>k. int16At view (b + 2 * k) = - 32768) [s..<ns]),
               ls_channels := (ls_channels st)
                 [ch := ls_channels st ! ch @
                    map (\<lambda>k. \<lparr> timestamp = int bt * 1000 + int k * int iv,
                                val = of_int (int16At view (b + 2 * k)) / 100 \<rparr>)
                      (filter (\<lambda>k. int16At view (b + 2 * k) \<noteq> - 32768) [s..<ns])],
               ls_offset := b + 2 * ns \<rparr>)"
  using assms
proof (induction "ns - s" arbitrary: s st)
  case 0
  then have "s = ns" by simp
  with 0 show ?case by (simp add: sampleLoop_stop)
next
  case (Suc n)
  then have lt: "s < ns" by simp
  have n: "n = ns - Suc s" using Suc.hyps(2) by simp
  have rd: "getInt16 view (ls_offset st) = Some (int16At view (b + 2 * s))"
    using Suc.prems lt by (simp add: getInt16_def)
  have upt: "[s..<ns] = s # [Suc s..<ns]" using lt by (simp add: upt_conv_Cons)
  show ?case
  proof (cases "int16At view (b + 2 * s) = - 32768")
    case True
    let ?st1 = "st\<lparr> ls_invalidCount := ls_invalidCount st + 1, ls_offset := ls_offset st + 2 \<rparr>"
    have step: "sampleLoop view bt iv ns ch s st = sampleLoop view bt iv ns ch (Suc s) ?st1"
      using lt rd True by (simp add: sampleLoop_invalid)
    have "sampleLoop view bt iv ns ch (Suc s) ?st1 = Some (?st1\<lparr> ls_invalidCount := ls_invalidCount ?st1 +
                  length (filter (\<lambda>k. int16At view (b + 2 * k) = - 32768) [Suc s..<ns]),
               ls_channels := (ls_channels ?st1)
                 [ch := ls_channels ?st1 ! ch @
                    map (\<lambda>k. \<lparr> timestamp = int bt * 1000 + int k * int iv,
                                val = of_int (int16At view (b + 2 * k)) / 100 \<rparr>)
                      (filter (\<lambda>k. int16At view (b + 2 * k) \<noteq> - 32768) [Suc s..<ns])],
               ls_offset := b + 2 * ns \<rparr>)"
      using Suc.prems lt by (intro Suc.hyps(1) [OF n]) simp_all
    then show ?thesis using True by (simp add: step upt)
  next
    case False
    let ?st1 = "st\<lparr> ls_channels := (ls_channels st)
            [ch := ls_channels st ! ch @
               [\<lparr> timestamp = int bt * 1000 + int s * int iv,
                  val = of_int (int16At view (b + 2 * s)) / 100 \<rparr>]],
          ls_offset := ls_offset st + 2 \<rparr>"
    have step: "sampleLoop view bt iv ns ch s st = sampleLoop view bt iv ns ch (Suc s) ?st1"
      using lt rd False by (simp add: sampleLoop_valid)
    have "sampleLoop view bt iv ns ch (Suc s) ?st1 = Some (?st1\<lparr> ls_invalidCount := ls_invalidCount ?st1 +
                  length (filter (\<lambda>k. int16At view (b + 2 * k) = - 32768) [Suc s..<ns]),
               ls_channels := (ls_channels ?st1)
                 [ch := ls_channels ?st1 ! ch @
                    map (\<lambda>k. \<lparr> timestamp = int bt * 1000 + int k * int iv,
                                val = of_int (int16At view (b + 2 * k)) / 100 \<rparr>)
                      (filter (\<lambda>k. int16At view (b + 2 * k) \<noteq> - 32768) [Suc s..<ns])],
               ls_offset := b + 2 * ns \<rparr>)"
      using Suc.prems lt by (intro Suc.hyps(1) [OF n]) simp_all
    then show ?thesis using False Suc.prems(4) by (simp add: step upt)
  qed
qed

lemma sampleLoop_channel:
  assumes "ls_offset st = 8 + 2 * ns * ch" "8 + 2 * ns * Suc ch \<le> length view"
    "ch < length (ls_channels st)"
  shows "sampleLoop view bt iv ns ch 0 st =
     Some (st\<lparr> ls_invalidCount := ls_invalidCount st + spec_invalidIn view ns ch,
               ls_channels := (ls_channels st)
                 [ch := ls_channels st ! ch @ spec_channelSamples view bt iv ns ch],
               ls_offset := 8 + 2 * ns * Suc ch \<rparr>)"
proof -
  have e1: "\<And>k. int16At view (8 + 2 * ns * ch + 2 * k) = spec_rawAt view ns ch k"
    by (simp add: spec_rawAt_def algebra_simps)
  have e2: "8 + 2 * ns * ch + 2 * ns = 8 + 2 * ns * Suc ch" by simp
  have "sampleLoop view bt iv ns ch 0 st =
     Some (st\<lparr> ls_invalidCount := ls_invalidCount st +
                  length (filter (\<lambda>k. int16At view (8 + 2 * ns * ch + 2 * k) = - 32768) [0..<ns]),
               ls_channels := (ls_channels st)
                 [ch := ls_channels st ! ch @
                    map (\<lambda>k. \<lparr> timestamp = int bt * 1000 + int k * int iv,
                                val = of_int (int16At view (8 + 2 * ns * ch + 2 * k)) / 100 \<rparr>)
                      (filter (\<lambda>k. int16At view (8 + 2 * ns * ch + 2 * k) \<noteq> - 32768) [0..<ns])],
               ls_offset := 8 + 2 * ns * ch + 2 * ns \<rparr>)"
    using assms by (intro sampleLoop_run) simp_all
  then show ?thesis
    unfolding e1 e2 spec_invalidIn_def spec_channelSamples_def spec_sample_def [abs_def] .
qed

lemma channelLoop_run:
  assumes "ls_offset st = 8 + 2 * ns * ch" "ch \<le> nc" "8 + 2 * ns * nc \<le> length view"
    "length (ls_channels st) = nc"
  shows "\<exists>st'. channelLoop view bt iv ns nc ch st = Some st' \<and>
           ls_invalidCount st' =
             ls_invalidCount st + sum_list (map (spec_invalidIn view ns) [ch..<nc]) \<and>
           length (ls_channels st') = nc \<and>
           (\<forall>c<nc. ls_channels st' ! c =
              (if ch \<le> c then ls_channels st ! c @ spec_channelSamples view bt iv ns c
               else ls_channels st ! c))"
  using assms
proof (induction "nc - ch" arbitrary: ch st)
  case 0
  then have "ch = nc" by simp
  with 0 show ?case by (simp add: channelLoop.simps)
next
  case (Suc n)
  then have lt: "ch < nc" by simp
  have n: "n = nc - Suc ch" using Suc.hyps(2) by simp
  let ?st1 = "st\<lparr> ls_invalidCount := ls_invalidCount st + spec_invalidIn view ns ch,
               ls_channels := (ls_channels st)
                 [ch := ls_channels st ! ch @ spec_channelSamples view bt iv ns ch],
               ls_offset := 8 + 2 * ns * Suc ch \<rparr>"
  have "ns * Suc ch \<le> ns * nc" using lt by (intro mult_le_mono2) simp
  then have fit: "8 + 2 * ns * Suc ch \<le> length view" using Suc.prems(3) by simp
  have s1: "sampleLoop view bt iv ns ch 0 st = Some ?st1"
    using Suc.prems lt fit by (intro sampleLoop_channel) simp_all
  have step: "channelLoop view bt iv ns nc ch st = channelLoop view bt iv ns nc (Suc ch) ?st1"
    using lt s1 by (subst channelLoop.simps) simp
  have "\<exists>st'. channelLoop view bt iv ns nc (Suc ch) ?st1 = Some st' \<and>
           ls_invalidCount st' =
             ls_invalidCount ?st1 + sum_list (map (spec_invalidIn view ns) [Suc ch..<nc]) \<and>
           length (ls_channels st') = nc \<and>
           (\<forall>c<nc. ls_channels st' ! c =
              (if Suc ch \<le> c then ls_channels ?st1 ! c @ spec_channelSamples view bt iv ns c
               else ls_channels ?st1 ! c))"
    using Suc.prems lt by (intro Suc.hyps(1) [OF n]) simp_all
  then obtain st' where
    r: "channelLoop view bt iv ns nc (Suc ch) ?st1 = Some st'" and
    i: "ls_invalidCount st' =
          ls_invalidCount ?st1 + sum_list (map (spec_invalidIn view ns) [Suc ch..<nc])" and
    l: "length (ls_channels st') = nc" and
    c: "\<forall>c<nc. ls_channels st' ! c =
              (if Suc ch \<le> c then ls_channels ?st1 ! c @ spec_channelSamples view bt iv ns c
               else ls_channels ?st1 ! c)"
    by blast
  have upt: "[ch..<nc] = ch # [Suc ch..<nc]" using lt by (simp add: upt_conv_Cons)
  have "ls_invalidCount st' =
          ls_invalidCount st + sum_list (map (spec_invalidIn view ns) [ch..<nc])"
    using i by (simp add: upt)
  moreover have "\<forall>c<nc. ls_channels st' ! c =
              (if ch \<le> c then ls_channels st ! c @ spec_channelSamples view bt iv ns c
               else ls_channels st ! c)"
  proof (intro allI impI)
    fix c assume cn: "c < nc"
    from c cn have e: "ls_channels st' ! c =
              (if Suc ch \<le> c then ls_channels ?st1 ! c @ spec_channelSamples view bt iv ns c
               else ls_channels ?st1 ! c)" by blast
    show "ls_channels st' ! c =
              (if ch \<le> c then ls_channels st ! c @ spec_channelSamples view bt iv ns c
               else ls_channels st ! c)"
      using e cn lt Suc.prems(4) by (cases "c = ch") (auto simp: nth_list_update)
  qed
  ultimately show ?case using r l step by simp
qed

lemma decodePiezoScan_run:
  assumes "8 \<le> length view" "8 + 2 * unat (view ! 6) * unat (view ! 7) \<le> length view"
  shows "\<exists>st. decodePiezoScan view = Some (uint32At view 0, uint16At view 4, st) \<and>
           ls_invalidCount st =
             sum_list (map (spec_invalidIn view (unat (view ! 6))) [0..<unat (view ! 7)]) \<and>
           length (ls_channels st) = unat (view ! 7) \<and>
           (\<forall>c<unat (view ! 7). ls_channels st ! c =
              spec_channelSamples view (uint32At view 0) (uint16At view 4) (unat (view ! 6)) c)"
proof -
  let ?st0 = "\<lparr> ls_offset = 8, ls_invalidCount = 0,
                ls_channels = replicate (unat (view ! 7)) ([] :: sample list) \<rparr>"
  have "\<exists>st'. channelLoop view (uint32At view 0) (uint16At view 4) (unat (view ! 6))
                 (unat (view ! 7)) 0 ?st0 = Some st' \<and>
           ls_invalidCount st' =
             ls_invalidCount ?st0 +
             sum_list (map (spec_invalidIn view (unat (view ! 6))) [0..<unat (view ! 7)]) \<and>
           length (ls_channels st') = unat (view ! 7) \<and>
           (\<forall>c<unat (view ! 7). ls_channels st' ! c =
              (if 0 \<le> c then ls_channels ?st0 ! c @
                  spec_channelSamples view (uint32At view 0) (uint16At view 4) (unat (view ! 6)) c
               else ls_channels ?st0 ! c))"
    using assms by (intro channelLoop_run) simp_all
  then show ?thesis
    using assms(1)
    by (auto simp: decodePiezoScan_def getUint32_def getUint16_def getUint8_def)
qed

lemma byte_less: "unat (b :: 8 word) < 256"
  using unsigned_less [of b, where 'a = nat] by simp

lemma uint16At_less: "uint16At view off < 65536"
  using byte_less [of "view ! off"] byte_less [of "view ! (off + 1)"]
  by (simp add: uint16At_def)

lemma signed16_cases:
  "0 \<le> k \<Longrightarrow> k < 65536 \<Longrightarrow>
   signed_take_bit 15 (k :: int) = (if k < 32768 then k else k - 65536)"
proof (cases "k < 32768")
  case True
  assume "0 \<le> k"
  with True have "- (2 ^ 15) \<le> k" "k < 2 ^ 15" by simp_all
  then have "signed_take_bit 15 k = k" by (rule signed_take_bit_int_eq_self)
  with True show ?thesis by (simp only: if_True)
next
  case False
  assume "k < 65536"
  with False have r: "0 \<le> k - 32768" "k - 32768 < 65536" by simp_all
  have "k + 32768 = (k - 32768) + 65536" by simp
  then have "(k + 32768) mod 65536 = (k - 32768) mod 65536" by (simp only: mod_add_self2)
  also have "\<dots> = k - 32768" using r by (rule mod_pos_pos_trivial)
  finally have "(k + 32768) mod 65536 = k - 32768" .
  moreover have "take_bit (Suc 15) (k + 2 ^ 15) = (k + 2 ^ 15) mod 2 ^ Suc 15"
    by (rule take_bit_eq_mod)
  moreover have "signed_take_bit 15 k = take_bit (Suc 15) (k + 2 ^ 15) - 2 ^ 15"
    by (rule signed_take_bit_eq_take_bit_shift)
  moreover have "(2::int) ^ 15 = 32768" "(2::int) ^ Suc 15 = 65536" by simp_all
  ultimately have "signed_take_bit 15 k = k - 65536" by simp
  with False show ?thesis by (simp only: if_False)
qed

lemma int16At_signed:
  "int16At view off =
     (if uint16At view off < 32768 then int (uint16At view off)
      else int (uint16At view off) - 65536)"
  using signed16_cases [of "int (uint16At view off)"] uint16At_less [of view off]
  by (simp add: int16At_def signed_of_nat)

lemma decodePiezoBytes_scan:
  "decodePiezoBytes view = Some r \<longleftrightarrow>
   (\<exists>st. decodePiezoScan view = Some (baseTimestamp r, sampleIntervalMs r, st) \<and>
         channels r = ls_channels st)"
  by (cases r) (auto simp: decodePiezoBytes_def split: option.splits)

lemma examplePiezo_decodes: "decodePiezoBytes examplePiezo = Some examplePiezoDecoded"
  apply (simp add: examplePiezo_def examplePiezoDecoded_def decodePiezoBytes_def
      decodePiezoScan_def getUint32_def getUint16_def getUint8_def getInt16_def uint32At_def
      uint16At_def int16At_def sampleLoop.simps channelLoop.simps)
  apply (simp add: numeral_2_eq_2)
  done

lemma examplePiezo_header:
  "unat (examplePiezo ! 6) = 2" "unat (examplePiezo ! 7) = 2" "length examplePiezo = 16"
  "uint32At examplePiezo 0 = 1732680281" "uint16At examplePiezo 4 = 100"
  by (simp_all add: examplePiezo_def uint32At_def uint16At_def)

lemma examplePiezo_raw:
  "spec_rawAt examplePiezo 2 0 0 = 100" "spec_rawAt examplePiezo 2 0 (Suc 0) = - 32768"
  "spec_rawAt examplePiezo 2 (Suc 0) 0 = 250" "spec_rawAt examplePiezo 2 (Suc 0) (Suc 0) = - 1"
  by (simp_all add: examplePiezo_def spec_rawAt_def int16At_def uint16At_def)

lemma upt_2: "[0..<2] = [0, Suc 0]"
  by (simp add: numeral_2_eq_2)

lemma decodePiezoBytes_short:
  assumes "length view < 8 + 2 * unat (view ! 6) * unat (view ! 7)"
  shows "decodePiezoBytes view = None"
proof (cases "decodePiezoScan view")
  case None
  then show ?thesis by (simp add: decodePiezoBytes_def)
next
  case (Some t)
  obtain bt iv st where "t = (bt, iv, st)" by (cases t)
  with Some have "8 + 2 * unat (view ! 6) * unat (view ! 7) \<le> length view"
    by (auto dest: decodePiezoScan_length)
  with assms show ?thesis by simp
qed

subsection \<open>The temperature/humidity record\<close>

text \<open>
  Claim C1, as amended. For every temperature/humidity buffer of at least 8 bytes the
  decoder reads \<open>timestamp\<close> (u32) at offset 0, \<open>tempRaw\<close> (i16, two's complement) at
  offset 4 and \<open>humRaw\<close> (u16) at offset 6, little-endian, and returns
  \<open>temperature = tempRaw / 100\<close>, \<open>humidity = humRaw / 100\<close> and the timestamp field as it
  is, in seconds: it is not multiplied by 1000.
\<close>

theorem decodeTempHum_fields:
  assumes "8 \<le> length view"
  shows "decodeTempHumBytes view =
           Some \<lparr> th_timestamp = uint32At view 0,
                  temperature = of_int (int16At view 4) / 100,
                  humidity = of_nat (uint16At view 6) / 100 \<rparr> \<and>
         int16At view 4 =
           (if uint16At view 4 < 32768 then int (uint16At view 4)
            else int (uint16At view 4) - 65536)"
  using assms int16At_signed [of view 4]
  by (simp add: decodeTempHumBytes_def getUint32_def getInt16_def getUint16_def)

text \<open>
  On the bytes \<open>59 9A 46 67 29 09 85 1A\<close> the result is temperature 23.45, humidity 67.89
  and timestamp 1732680281.
\<close>

theorem decodeTempHum_fields_witness:
  "8 \<le> length exampleTempHum \<and>
   decodeTempHumBytes exampleTempHum =
     Some \<lparr> th_timestamp = 1732680281, temperature = 2345 / 100, humidity = 6789 / 100 \<rparr>"
  using decodeTempHum_fields [of exampleTempHum]
  by (simp add: exampleTempHum_def uint32At_def uint16At_def int16At_def)

text \<open>
  Claim C1 as stated fails on those bytes: the timestamp returned is 1732680281, which
  is neither the timestamp field times 1000 nor 1732012345000.
\<close>

theorem decodeTempHum_seconds_counterexample:
  "map_option th_timestamp (decodeTempHumBytes exampleTempHum) = Some 1732680281 \<and>
   map_option th_timestamp (decodeTempHumBytes exampleTempHum) \<noteq> Some 1732012345000 \<and>
   map_option th_timestamp (decodeTempHumBytes exampleTempHum) \<noteq>
     Some (uint32At exampleTempHum 0 * 1000)"
  by (simp add: exampleTempHum_def decodeTempHumBytes_def getUint32_def getInt16_def
      getUint16_def uint32At_def uint16At_def int16At_def)

subsection \<open>The piezo batch\<close>

text \<open>
  Claim C2. A piezo buffer that holds the declared \<open>8 + 2 * numSamples * numChannels\<close>
  bytes decodes, with the header fields of the buffer and one output channel per declared
  channel, and the sequence of every channel \<open>ch\<close> is made, in the order of the sample
  index \<open>s\<close>, from the int16 at byte offset \<open>8 + 2 * (ch * numSamples + s)\<close>: the value
  section is consumed channel-outer, sample-inner.
\<close>

theorem piezo_channel_major:
  assumes "8 + 2 * unat (view ! 6) * unat (view ! 7) \<le> length view" "ch < unat (view ! 7)"
  shows "\<exists>r. decodePiezoBytes view = Some r \<and>
           baseTimestamp r = uint32At view 0 \<and> sampleIntervalMs r = uint16At view 4 \<and>
           length (channels r) = unat (view ! 7) \<and>
           channels r ! ch =
             map (\<lambda>s. \<lparr> timestamp = int (baseTimestamp r) * 1000 +
                           int s * int (sampleIntervalMs r),
                         val = of_int (int16At view (8 + 2 * (ch * unat (view ! 6) + s))) / 100 \<rparr>)
               (filter (\<lambda>s. int16At view (8 + 2 * (ch * unat (view ! 6) + s)) \<noteq> - 32768)
                  [0..<unat (view ! 6)])"
proof -
  from assms(1) have hdr: "8 \<le> length view" by simp
  from decodePiezoScan_run [OF hdr assms(1)] obtain st where
    scan: "decodePiezoScan view = Some (uint32At view 0, uint16At view 4, st)" and
    len: "length (ls_channels st) = unat (view ! 7)" and
    chans: "\<forall>c<unat (view ! 7). ls_channels st ! c =
        spec_channelSamples view (uint32At view 0) (uint16At view 4) (unat (view ! 6)) c"
    by blast
  let ?r = "\<lparr> channels = ls_channels st, baseTimestamp = uint32At view 0,
              sampleIntervalMs = uint16At view 4 \<rparr>"
  have "decodePiezoBytes view = Some ?r"
    using scan by (simp add: decodePiezoBytes_def)
  moreover have "channels ?r ! ch =
             map (\<lambda>s. \<lparr> timestamp = int (baseTimestamp ?r) * 1000 +
                           int s * int (sampleIntervalMs ?r),
                         val = of_int (int16At view (8 + 2 * (ch * unat (view ! 6) + s))) / 100 \<rparr>)
               (filter (\<lambda>s. int16At view (8 + 2 * (ch * unat (view ! 6) + s)) \<noteq> - 32768)
                  [0..<unat (view ! 6)])"
    using chans assms(2)
    by (simp add: spec_channelSamples_def spec_sample_def [abs_def] spec_rawAt_def)
  ultimately show ?thesis using len by (intro exI [of _ ?r]) simp
qed

theorem piezo_channel_major_witness:
  "8 + 2 * unat (examplePiezo ! 6) * unat (examplePiezo ! 7) \<le> length examplePiezo \<and>
   Suc 0 < unat (examplePiezo ! 7) \<and>
   decodePiezoBytes examplePiezo = Some examplePiezoDecoded \<and>
   length (channels examplePiezoDecoded) = 2 \<and>
   channels examplePiezoDecoded ! Suc 0 =
     [\<lparr> timestamp = 1732680281000, val = of_int (int16At examplePiezo 12) / 100 \<rparr>,
      \<lparr> timestamp = 1732680281100, val = of_int (int16At examplePiezo 14) / 100 \<rparr>]"
proof -
  have fit: "8 + 2 * unat (examplePiezo ! 6) * unat (examplePiezo ! 7) \<le> length examplePiezo"
    by (simp add: examplePiezo_header)
  have lt: "Suc 0 < unat (examplePiezo ! 7)" by (simp add: examplePiezo_header)
  have r: "spec_rawAt examplePiezo 2 (Suc 0) 0 = int16At examplePiezo 12"
    "spec_rawAt examplePiezo 2 (Suc 0) (Suc 0) = int16At examplePiezo 14"
    by (simp_all add: spec_rawAt_def)
  from piezo_channel_major [OF fit lt] obtain d where
    d: "decodePiezoBytes examplePiezo = Some d" and
    l: "length (channels d) = unat (examplePiezo ! 7)" and
    c: "channels d ! Suc 0 =
             map (\<lambda>s. \<lparr> timestamp = int (baseTimestamp d) * 1000 +
                           int s * int (sampleIntervalMs d),
                         val = of_int (int16At examplePiezo
                                 (8 + 2 * (Suc 0 * unat (examplePiezo ! 6) + s))) / 100 \<rparr>)
               (filter (\<lambda>s. int16At examplePiezo
                              (8 + 2 * (Suc 0 * unat (examplePiezo ! 6) + s)) \<noteq> - 32768)
                  [0..<unat (examplePiezo ! 6)])" and
    b: "baseTimestamp d = uint32At examplePiezo 0" "sampleIntervalMs d = uint16At examplePiezo 4"
    by blast
  from d have e: "d = examplePiezoDecoded" by (simp add: examplePiezo_decodes)
  from l have "length (channels examplePiezoDecoded) = 2"
    by (simp add: e examplePiezo_header)
  moreover from c b examplePiezo_raw have "channels examplePiezoDecoded ! Suc 0 =
     [\<lparr> timestamp = 1732680281000, val = of_int (int16At examplePiezo 12) / 100 \<rparr>,
      \<lparr> timestamp = 1732680281100, val = of_int (int16At examplePiezo 14) / 100 \<rparr>]"
    unfolding r [symmetric] e
    by (simp add: examplePiezo_header upt_2 spec_rawAt_def)
  ultimately show ?thesis using fit lt examplePiezo_decodes by blast
qed

text \<open>
  Claim C3. A piezo buffer that holds the declared \<open>8 + 2 * numSamples * numChannels\<close>
  bytes decodes. The output of channel \<open>ch\<close> is exactly the list of the samples
  \<open>(baseTimestamp * 1000 + s * sampleIntervalMs, raw / 100)\<close> of its positions \<open>s\<close> whose
  value is not \<open>-32768\<close>, one sample per such position; the sentinel positions give no
  sample, so the kept samples and the sentinel positions of a channel add up to
  \<open>numSamples\<close>; and \<open>invalidCount\<close> ends as the number of sentinel positions.
\<close>

theorem piezo_sentinel_filter:
  assumes "8 + 2 * unat (view ! 6) * unat (view ! 7) \<le> length view"
  shows "\<exists>st. decodePiezoScan view = Some (uint32At view 0, uint16At view 4, st) \<and>
           decodePiezoBytes view =
             Some \<lparr> channels = ls_channels st, baseTimestamp = uint32At view 0,
                    sampleIntervalMs = uint16At view 4 \<rparr> \<and>
           length (ls_channels st) = unat (view ! 7) \<and>
           (\<forall>ch<unat (view ! 7).
              ls_channels st ! ch =
                spec_channelSamples view (uint32At view 0) (uint16At view 4) (unat (view ! 6)) ch \<and>
              length (ls_channels st ! ch) + spec_invalidIn view (unat (view ! 6)) ch =
                unat (view ! 6)) \<and>
           ls_invalidCount st =
             sum_list (map (spec_invalidIn view (unat (view ! 6))) [0..<unat (view ! 7)])"
proof -
  from assms have hdr: "8 \<le> length view" by simp
  have cnt: "length (spec_channelSamples view (uint32At view 0) (uint16At view 4)
                      (unat (view ! 6)) ch) + spec_invalidIn view (unat (view ! 6)) ch =
             unat (view ! 6)" for ch
    using sum_length_filter_compl
      [of "\<lambda>s. spec_rawAt view (unat (view ! 6)) ch s = - 32768" "[0..<unat (view ! 6)]"]
    by (simp add: spec_channelSamples_def spec_invalidIn_def)
  from decodePiezoScan_run [OF hdr assms] obtain st where
    "decodePiezoScan view = Some (uint32At view 0, uint16At view 4, st)"
    "ls_invalidCount st =
       sum_list (map (spec_invalidIn view (unat (view ! 6))) [0..<unat (view ! 7)])"
    "length (ls_channels st) = unat (view ! 7)"
    "\<forall>c<unat (view ! 7). ls_channels st ! c =
        spec_channelSamples view (uint32At view 0) (uint16At view 4) (unat (view ! 6)) c"
    by blast
  then show ?thesis
    by (intro exI [of _ st]) (simp add: decodePiezoBytes_def cnt)
qed

theorem piezo_sentinel_filter_witness:
  "8 + 2 * unat (examplePiezo ! 6) * unat (examplePiezo ! 7) \<le> length examplePiezo \<and>
   (\<exists>st. decodePiezoScan examplePiezo = Some (1732680281, 100, st) \<and>
         ls_channels st ! 0 = [\<lparr> timestamp = 1732680281000, val = 1 \<rparr>] \<and>
         ls_channels st ! Suc 0 =
           [\<lparr> timestamp = 1732680281000, val = 5 / 2 \<rparr>,
            \<lparr> timestamp = 1732680281100, val = - 1 / 100 \<rparr>] \<and>
         ls_invalidCount st = 1)"
proof -
  have fit: "8 + 2 * unat (examplePiezo ! 6) * unat (examplePiezo ! 7) \<le> length examplePiezo"
    by (simp add: examplePiezo_header)
  from piezo_sentinel_filter [OF fit] obtain st where
    scan: "decodePiezoScan examplePiezo = Some (1732680281, 100, st)" and
    chans: "\<forall>ch<2. ls_channels st ! ch = spec_channelSamples examplePiezo 1732680281 100 2 ch \<and>
              length (ls_channels st ! ch) + spec_invalidIn examplePiezo 2 ch = 2" and
    inv: "ls_invalidCount st = sum_list (map (spec_invalidIn examplePiezo 2) [0..<2])"
    unfolding examplePiezo_header by blast
  from chans have "ls_channels st ! 0 = spec_channelSamples examplePiezo 1732680281 100 2 0"
    "ls_channels st ! Suc 0 = spec_channelSamples examplePiezo 1732680281 100 2 (Suc 0)"
    by simp_all
  then have "ls_channels st ! 0 = [\<lparr> timestamp = 1732680281000, val = 1 \<rparr>]"
    "ls_channels st ! Suc 0 =
       [\<lparr> timestamp = 1732680281000, val = 5 / 2 \<rparr>,
        \<lparr> timestamp = 1732680281100, val = - 1 / 100 \<rparr>]"
    by (simp_all add: spec_channelSamples_def spec_sample_def upt_2 examplePiezo_raw)
  moreover from inv have "ls_invalidCount st = 1"
    by (simp add: spec_invalidIn_def upt_2 examplePiezo_raw)
  ultimately show ?thesis using fit scan by blast
qed

text \<open>
  Claim C4. A buffer shorter than the 8-byte header makes both decoders return \<open>null\<close>,
  and a piezo buffer shorter than \<open>8 + 2 * numSamples * numChannels\<close> bytes makes
  \<open>decodePiezoData\<close> return \<open>null\<close>: no sample is produced.
\<close>

theorem truncated_buffers_fail:
  "(length view < 8 \<longrightarrow> decodePiezoBytes view = None \<and> decodeTempHumBytes view = None) \<and>
   (length view < 8 + 2 * unat (view ! 6) * unat (view ! 7) \<longrightarrow> decodePiezoBytes view = None)"
proof (intro conjI impI)
  assume "length view < 8"
  then show "decodePiezoBytes view = None"
    by (auto simp: decodePiezoBytes_def decodePiezoScan_def getUint32_def getUint16_def
        getUint8_def split: option.splits Option.bind_splits)
next
  assume "length view < 8"
  then show "decodeTempHumBytes view = None"
    by (auto simp: decodeTempHumBytes_def getUint32_def getUint16_def getInt16_def
        split: Option.bind_splits)
next
  assume short: "length view < 8 + 2 * unat (view ! 6) * unat (view ! 7)"
  show "decodePiezoBytes view = None"
  proof (cases "decodePiezoScan view")
    case None
    then show ?thesis by (simp add: decodePiezoBytes_def)
  next
    case (Some t)
    obtain bt iv st where "t = (bt, iv, st)" by (cases t)
    with Some have "8 + 2 * unat (view ! 6) * unat (view ! 7) \<le> length view"
      by (auto dest: decodePiezoScan_length)
    with short show ?thesis by simp
  qed
qed

theorem truncated_buffers_fail_witness:
  "length (take 3 examplePiezo) < 8 \<and>
   decodePiezoBytes (take 3 examplePiezo) = None \<and>
   decodeTempHumBytes (take 3 examplePiezo) = None \<and>
   length (butlast examplePiezo)
     < 8 + 2 * unat (butlast examplePiezo ! 6) * unat (butlast examplePiezo ! 7) \<and>
   decodePiezoBytes (butlast examplePiezo) = None"
  using truncated_buffers_fail [of "take 3 examplePiezo"]
    truncated_buffers_fail [of "butlast examplePiezo"]
  by (simp add: examplePiezo_def)

section \<open>Properties of the clock-offset average\<close>

lemma foldl_plus_sum_list: "foldl (+) a xs = a + sum_list (xs :: rat list)"
  by (induction xs arbitrary: a) (simp_all add: add.assoc)

lemma observe_kept:
  "fst (observe x (kept, r)) =
     (if length kept < OFFSET_SAMPLE_SIZE then kept @ [x] else tl (kept @ [x]))"
  by (simp add: observe_def Let_def not_less less_Suc_eq_le)

lemma observe_avg:
  "snd (observe x refs) =
     sum_list (fst (observe x refs)) / of_nat (length (fst (observe x refs)))"
  by (simp add: observe_def Let_def foldl_plus_sum_list)

lemma observeAll_snoc: "observeAll (xs @ [x]) = observe x (observeAll xs)"
  by (simp add: observeAll_def)

lemma observeAll_kept:
  "fst (observeAll xs) = drop (length xs - OFFSET_SAMPLE_SIZE) xs"
proof (induction xs rule: rev_induct)
  case Nil
  show ?case by (simp add: observeAll_def)
next
  case (snoc x xs)
  obtain kept r where o: "observeAll xs = (kept, r)" by (cases "observeAll xs")
  with snoc have kept: "kept = drop (length xs - OFFSET_SAMPLE_SIZE) xs" by simp
  show ?case
  proof (cases "length xs < OFFSET_SAMPLE_SIZE")
    case True
    then show ?thesis by (simp add: observeAll_snoc o observe_kept kept)
  next
    case False
    define d where "d = length xs - OFFSET_SAMPLE_SIZE"
    have big: "0 < OFFSET_SAMPLE_SIZE" by (simp add: OFFSET_SAMPLE_SIZE_def)
    from False big have d: "Suc (length xs) - OFFSET_SAMPLE_SIZE = Suc d" "Suc d \<le> length xs"
      by (simp_all add: d_def)
    then have ne: "drop d xs \<noteq> []" by simp
    have full: "\<not> length kept < OFFSET_SAMPLE_SIZE" using False by (simp add: kept)
    have "fst (observeAll (xs @ [x])) = tl (drop d xs @ [x])"
      using full by (simp add: observeAll_snoc o observe_kept kept d_def)
    also have "\<dots> = tl (drop d xs) @ [x]" using ne by simp
    also have "\<dots> = drop (Suc d) xs @ [x]" by (simp add: drop_Suc tl_drop)
    also have "\<dots> = drop (Suc d) (xs @ [x])" using d(2) by simp
    finally show ?thesis using d(1) by simp
  qed
qed

lemma observeAll_avg:
  "snd (observeAll xs) =
     (if xs = [] then 0
      else sum_list (fst (observeAll xs)) / of_nat (length (fst (observeAll xs))))"
proof (cases xs rule: rev_cases)
  case Nil
  then show ?thesis by (simp add: observeAll_def)
next
  case (snoc ys y)
  then show ?thesis by (simp add: observeAll_snoc observe_avg)
qed

text \<open>
  Claim C6. After any sequence of offset samples the estimator holds the last 20 of them
  (all of them while there are at most 20), pushing a sample onto 20 held ones drops the
  oldest, and the estimate is the arithmetic mean of the held samples, or 0 before the
  first sample. After \<open>[100, 200, 300]\<close> the estimate is 200, and samples followed by 20
  more leave the same refs as those 20 alone.
\<close>

theorem offset_estimator_window:
  "fst (observeAll xs) = drop (length xs - 20) xs \<and>
   length (fst (observeAll xs)) = min (length xs) 20 \<and>
   snd (observeAll xs) =
     (if xs = [] then 0
      else sum_list (drop (length xs - 20) xs) / of_nat (min (length xs) 20)) \<and>
   fst (observe x (a # kept, r)) =
     (if length (a # kept) < 20 then a # kept @ [x] else kept @ [x]) \<and>
   snd (observeAll [100, 200, 300]) = 200 \<and>
   (length zs = 20 \<longrightarrow> observeAll (ys @ zs) = observeAll zs)"
proof -
  have k: "fst (observeAll xs) = drop (length xs - 20) xs" for xs
    using observeAll_kept [of xs] by (simp add: OFFSET_SAMPLE_SIZE_def)
  have l: "length (fst (observeAll xs)) = min (length xs) 20"
    by (simp add: k)
  have a: "snd (observeAll xs) =
     (if xs = [] then 0
      else sum_list (drop (length xs - 20) xs) / of_nat (min (length xs) 20))"
    using observeAll_avg [of xs] unfolding l by (simp only: k)
  have s: "fst (observe x (a # kept, r)) =
     (if length (a # kept) < 20 then a # kept @ [x] else kept @ [x])"
    by (simp add: observe_kept OFFSET_SAMPLE_SIZE_def)
  have e: "snd (observeAll [100, 200, 300]) = 200"
    by (simp add: observeAll_def observe_def OFFSET_SAMPLE_SIZE_def)
  have z: "observeAll (ys @ zs) = observeAll zs" if "length zs = 20"
  proof (rule prod_eqI)
    show f: "fst (observeAll (ys @ zs)) = fst (observeAll zs)"
      using that by (simp add: k)
    from that have "zs \<noteq> []" by auto
    then show "snd (observeAll (ys @ zs)) = snd (observeAll zs)"
      by (simp add: observeAll_avg f)
  qed
  from k [of xs] l a s e z show ?thesis by blast
qed

theorem offset_estimator_window_witness:
  "length [6, 7, 8, 9, 10, 11, 12, 13, 14, 15, 16, 17, 18, 19, 20, 21, 22, 23, 24, 25 :: rat] = 20 \<and>
   observeAll ([1, 2, 3, 4, 5] @
       [6, 7, 8, 9, 10, 11, 12, 13, 14, 15, 16, 17, 18, 19, 20, 21, 22, 23, 24, 25]) =
     observeAll [6, 7, 8, 9, 10, 11, 12, 13, 14, 15, 16, 17, 18, 19, 20, 21, 22, 23, 24, 25] \<and>
   snd (observeAll ([1, 2, 3, 4, 5] @
       [6, 7, 8, 9, 10, 11, 12, 13, 14, 15, 16, 17, 18, 19, 20, 21, 22, 23, 24, 25])) = 31 / 2"
  using offset_estimator_window
    [of "[6, 7, 8, 9, 10, 11, 12, 13, 14, 15, 16, 17, 18, 19, 20, 21, 22, 23, 24, 25]" _ _ _ _
      "[6, 7, 8, 9, 10, 11, 12, 13, 14, 15, 16, 17, 18, 19, 20, 21, 22, 23, 24, 25]"
      "[1, 2, 3, 4, 5]"]
  by simp

section \<open>Properties of the channel windows and of the handler\<close>

declare piezoBinaryLoop.simps [simp del] piezoLegacyLoop.simps [simp del]

lemma combined_window: "d \<in> set (combined now oldArr newPoints) \<Longrightarrow> now - time d \<le> WINDOW_MS"
  by (auto simp: combined_def)

lemma combined_set:
  "set (combined now oldArr newPoints) =
     {d \<in> set oldArr \<union> set newPoints. now - time d \<le> WINDOW_MS}"
  by (auto simp: combined_def)

lemma drop_take_step:
  "i < min (length mapping) n \<Longrightarrow>
   drop i (take n mapping) = mapping ! i # drop (Suc i) (take n mapping)"
  by (simp add: Cons_nth_drop_Suc [symmetric])

lemma piezoBinaryLoop_step:
  "i < min (length mapping) (length chans) \<Longrightarrow>
   piezoBinaryLoop now mapping chans prev i updated =
   piezoBinaryLoop now mapping chans prev (Suc i)
     (updated(mapping ! i \<mapsto>
        combined now (oldArrOf prev (mapping ! i)) (map toPoint (chans ! i))))"
  by (subst piezoBinaryLoop.simps) (simp add: Let_def)

lemma piezoBinaryLoop_stop:
  "\<not> i < min (length mapping) (length chans) \<Longrightarrow>
   piezoBinaryLoop now mapping chans prev i updated = updated"
  by (subst piezoBinaryLoop.simps) (rule if_not_P)

lemma piezoBinaryLoop_frame:
  "k \<notin> set (drop i (take (length chans) mapping)) \<Longrightarrow>
   piezoBinaryLoop now mapping chans prev i updated k = updated k"
proof (induction "min (length mapping) (length chans) - i" arbitrary: i updated)
  case 0
  then have "\<not> i < min (length mapping) (length chans)" by arith
  then have "piezoBinaryLoop now mapping chans prev i updated = updated"
    by (rule piezoBinaryLoop_stop)
  then show ?case by (simp only:)
next
  case (Suc n)
  from Suc.hyps(2) have lt: "i < min (length mapping) (length chans)" by arith
  have n: "n = min (length mapping) (length chans) - Suc i" using Suc.hyps(2) by simp
  from Suc.prems drop_take_step [OF lt] have
    ne: "k \<noteq> mapping ! i" and rest: "k \<notin> set (drop (Suc i) (take (length chans) mapping))"
    by auto
  show ?case
    using Suc.hyps(1) [OF n rest] ne by (simp add: piezoBinaryLoop_step [OF lt])
qed

lemma distinct_not_later:
  assumes "distinct mapping" "i < min (length mapping) n"
  shows "mapping ! i \<notin> set (drop (Suc i) (take n mapping))"
proof -
  have "distinct (drop i (take n mapping))" using assms(1) by simp
  with drop_take_step [OF assms(2)] show ?thesis by simp
qed

lemma piezoBinaryLoop_stored:
  "distinct mapping \<Longrightarrow> i \<le> j \<Longrightarrow> j < min (length mapping) (length chans) \<Longrightarrow>
   piezoBinaryLoop now mapping chans prev i updated (mapping ! j) =
     Some (combined now (oldArrOf prev (mapping ! j)) (map toPoint (chans ! j)))"
proof (induction "min (length mapping) (length chans) - i" arbitrary: i updated)
  case 0
  then show ?case by simp
next
  case (Suc n)
  from Suc.hyps(2) have lt: "i < min (length mapping) (length chans)" by arith
  have n: "n = min (length mapping) (length chans) - Suc i" using Suc.hyps(2) by simp
  show ?case
  proof (cases "j = i")
    case True
    have "mapping ! i \<notin> set (drop (Suc i) (take (length chans) mapping))"
      using Suc.prems(1) lt by (rule distinct_not_later)
    then show ?thesis
      by (simp add: True piezoBinaryLoop_step [OF lt] piezoBinaryLoop_frame)
  next
    case False
    with Suc.prems(2) have "Suc i \<le> j" by simp
    from Suc.hyps(1) [OF n Suc.prems(1) this Suc.prems(3)]
    show ?thesis by (simp add: piezoBinaryLoop_step [OF lt])
  qed
qed

lemma piezoBinaryLoop_appended:
  "k \<in> set (drop i (take (length chans) mapping)) \<Longrightarrow>
   \<exists>newPoints. piezoBinaryLoop now mapping chans prev i updated k =
      Some (combined now (oldArrOf prev k) newPoints)"
proof (induction "min (length mapping) (length chans) - i" arbitrary: i updated)
  case 0
  then have "drop i (take (length chans) mapping) = []" by simp
  with 0 show ?case by simp
next
  case (Suc n)
  from Suc.hyps(2) have lt: "i < min (length mapping) (length chans)" by arith
  have n: "n = min (length mapping) (length chans) - Suc i" using Suc.hyps(2) by simp
  show ?case
  proof (cases "k \<in> set (drop (Suc i) (take (length chans) mapping))")
    case True
    from Suc.hyps(1) [OF n True] show ?thesis by (simp add: piezoBinaryLoop_step [OF lt])
  next
    case False
    with Suc.prems drop_take_step [OF lt] have "k = mapping ! i" by auto
    with False show ?thesis
      by (auto simp: piezoBinaryLoop_step [OF lt] piezoBinaryLoop_frame)
  qed
qed

lemma setPiezoBinary_take:
  assumes "distinct mapping"
  shows "setPiezoBinary now mapping (take (length mapping) chans) prev =
         setPiezoBinary now mapping chans prev"
proof (rule ext)
  fix k
  let ?n = "min (length mapping) (length chans)"
  have len: "min (length mapping) (length (take (length mapping) chans)) = ?n" by simp
  have tk: "take (min (length chans) (length mapping)) mapping = take (length chans) mapping"
    by (cases "length chans \<le> length mapping") (simp_all add: min_def)
  show "setPiezoBinary now mapping (take (length mapping) chans) prev k =
        setPiezoBinary now mapping chans prev k"
  proof (cases "k \<in> set (take (length chans) mapping)")
    case True
    then obtain j where j: "j < ?n" "k = mapping ! j"
      by (auto simp: in_set_conv_nth)
    then have j': "j < min (length mapping) (length (take (length mapping) chans))"
      by simp
    show ?thesis
      using piezoBinaryLoop_stored [OF assms _ j(1), of 0 now prev prev]
        piezoBinaryLoop_stored [OF assms _ j', of 0 now prev prev] j
      by (simp add: setPiezoBinary_def)
  next
    case False
    then have a: "k \<notin> set (drop 0 (take (length chans) mapping))"
      and b: "k \<notin> set (drop 0 (take (length (take (length mapping) chans)) mapping))"
      by (simp_all add: tk)
    from piezoBinaryLoop_frame [OF a] piezoBinaryLoop_frame [OF b]
    show ?thesis by (simp only: setPiezoBinary_def)
  qed
qed

lemma getProp_Inl: "getProp v k = Inl e \<longleftrightarrow> v = JNull"
  by (cases v; cases e) (simp_all add: getProp_def)

lemma getProp_nonnull: "v \<noteq> JNull \<Longrightarrow> \<exists>r. getProp v k = Inr r"
  by (cases v) (simp_all add: getProp_def)

lemma toNumber_Inl: "toNumber strNum v = Inl e \<longleftrightarrow> (\<exists>x. v = Some x \<and> numberThrows x)"
proof (cases v)
  case None
  then show ?thesis by simp
next
  case (Some x)
  then show ?thesis by (cases x; cases e) simp_all
qed

lemma readingThrows_null: "readingThrows JNull"
  by (simp add: readingThrows_def getProp_def)

lemma legacyPoint_Inl:
  "legacyPoint strNum offs now obj = Inl TypeError \<longleftrightarrow> readingThrows obj"
proof (cases "obj = JNull")
  case True
  then show ?thesis by (simp add: legacyPoint_def getProp_def readingThrows_def)
next
  case False
  from getProp_nonnull [OF False, of "''ts''"] getProp_nonnull [OF False, of "''v''"]
  obtain ts v where g: "getProp obj ''ts'' = Inr ts" "getProp obj ''v'' = Inr v" by blast
  show ?thesis
  proof (cases "toNumber strNum v")
    case (Inl e)
    then have "\<exists>x. v = Some x \<and> numberThrows x" by (simp add: toNumber_Inl)
    with g Inl show ?thesis
      by (cases e) (auto simp: legacyPoint_def readingThrows_def)
  next
    case (Inr n)
    have "\<not> (\<exists>x. v = Some x \<and> numberThrows x)"
      using Inr toNumber_Inl [of strNum v TypeError] by simp
    with g Inr show ?thesis
      by (auto simp: legacyPoint_def readingThrows_def split: option.splits)
  qed
qed

lemma legacyPoint_Inr:
  "\<not> readingThrows obj \<Longrightarrow> \<exists>p. legacyPoint strNum offs now obj = Inr p"
  using legacyPoint_Inl [of strNum offs now obj]
  by (cases "legacyPoint strNum offs now obj") (auto intro: error.exhaust)

lemma mapPoints_total:
  "\<forall>obj \<in> set arr. \<not> readingThrows obj \<Longrightarrow>
   \<exists>pts. mapPoints (legacyPoint strNum offs now) arr = Inr pts \<and> length pts = length arr"
proof (induction arr)
  case Nil
  show ?case by simp
next
  case (Cons obj arr)
  then have "\<not> readingThrows obj" by simp
  from legacyPoint_Inr [OF this, of strNum offs now] obtain p where
    "legacyPoint strNum offs now obj = Inr p" by blast
  moreover from Cons obtain pts where
    "mapPoints (legacyPoint strNum offs now) arr = Inr pts" "length pts = length arr" by auto
  ultimately show ?case by simp
qed

lemma mapPoints_throws:
  "\<exists>obj \<in> set arr. readingThrows obj \<Longrightarrow>
   mapPoints (legacyPoint strNum offs now) arr = Inl TypeError"
proof (induction arr)
  case Nil
  then show ?case by simp
next
  case (Cons obj arr)
  show ?case
  proof (cases "readingThrows obj")
    case True
    then have "legacyPoint strNum offs now obj = Inl TypeError"
      by (simp only: legacyPoint_Inl)
    then show ?thesis by simp
  next
    case False
    with Cons have "mapPoints (legacyPoint strNum offs now) arr = Inl TypeError" by simp
    moreover from legacyPoint_Inr [OF False, of strNum offs now] obtain p where
      "legacyPoint strNum offs now obj = Inr p" by blast
    ultimately show ?thesis by simp
  qed
qed

lemma piezoLegacyLoop_stop:
  "\<not> i < length mapping \<Longrightarrow>
   piezoLegacyLoop strNum offs now mapping data prev i updated = Inr updated"
  by (subst piezoLegacyLoop.simps) (rule if_not_P)

lemma piezoLegacyLoop_step:
  "i < length mapping \<Longrightarrow> getProp data (sensorKey i) = Inr raw \<Longrightarrow>
   mapPoints (legacyPoint strNum offs now) (readingsOf raw) = Inr pts \<Longrightarrow>
   piezoLegacyLoop strNum offs now mapping data prev i updated =
   piezoLegacyLoop strNum offs now mapping data prev (Suc i)
     (updated(mapping ! i \<mapsto> combined now (oldArrOf prev (mapping ! i)) pts))"
  by (subst piezoLegacyLoop.simps) (simp add: Let_def)

lemma piezoLegacyLoop_Inr:
  assumes "piezoLegacyLoop strNum offs now mapping data prev i updated = Inr u'"
    "i < length mapping"
  shows "\<exists>raw pts. getProp data (sensorKey i) = Inr raw \<and>
           mapPoints (legacyPoint strNum offs now) (readingsOf raw) = Inr pts \<and>
           piezoLegacyLoop strNum offs now mapping data prev (Suc i)
             (updated(mapping ! i \<mapsto> combined now (oldArrOf prev (mapping ! i)) pts)) = Inr u'"
  using assms
  by (subst (asm) piezoLegacyLoop.simps) (auto simp: Let_def split: sum.splits)

lemma drop_step: "i < length mapping \<Longrightarrow> drop i mapping = mapping ! i # drop (Suc i) mapping"
  by (simp add: Cons_nth_drop_Suc [symmetric])

lemma piezoLegacyLoop_frame:
  "piezoLegacyLoop strNum offs now mapping data prev i updated = Inr u' \<Longrightarrow>
   k \<notin> set (drop i mapping) \<Longrightarrow> u' k = updated k"
proof (induction "length mapping - i" arbitrary: i updated)
  case 0
  then have "\<not> i < length mapping" by simp
  from piezoLegacyLoop_stop [OF this] 0 show ?case by simp
next
  case (Suc n)
  from Suc.hyps(2) have lt: "i < length mapping" by simp
  have n: "n = length mapping - Suc i" using Suc.hyps(2) by simp
  from piezoLegacyLoop_Inr [OF Suc.prems(1) lt] obtain raw pts where
    r: "piezoLegacyLoop strNum offs now mapping data prev (Suc i)
          (updated(mapping ! i \<mapsto> combined now (oldArrOf prev (mapping ! i)) pts)) = Inr u'"
    by blast
  from Suc.prems(2) drop_step [OF lt] have
    ne: "k \<noteq> mapping ! i" and rest: "k \<notin> set (drop (Suc i) mapping)" by auto
  from Suc.hyps(1) [OF n r rest] ne show ?case by simp
qed

lemma piezoLegacyLoop_stored:
  "piezoLegacyLoop strNum offs now mapping data prev i updated = Inr u' \<Longrightarrow>
   distinct mapping \<Longrightarrow> i \<le> j \<Longrightarrow> j < length mapping \<Longrightarrow>
   \<exists>raw pts. getProp data (sensorKey j) = Inr raw \<and>
     mapPoints (legacyPoint strNum offs now) (readingsOf raw) = Inr pts \<and>
     u' (mapping ! j) = Some (combined now (oldArrOf prev (mapping ! j)) pts)"
proof (induction "length mapping - i" arbitrary: i updated)
  case 0
  then show ?case by simp
next
  case (Suc n)
  from Suc.hyps(2) have lt: "i < length mapping" by simp
  have n: "n = length mapping - Suc i" using Suc.hyps(2) by simp
  from piezoLegacyLoop_Inr [OF Suc.prems(1) lt] obtain raw pts where
    g: "getProp data (sensorKey i) = Inr raw" and
    m: "mapPoints (legacyPoint strNum offs now) (readingsOf raw) = Inr pts" and
    r: "piezoLegacyLoop strNum offs now mapping data prev (Suc i)
          (updated(mapping ! i \<mapsto> combined now (oldArrOf prev (mapping ! i)) pts)) = Inr u'"
    by blast
  show ?case
  proof (cases "j = i")
    case True
    have "distinct (drop i mapping)" using Suc.prems(2) by simp
    with drop_step [OF lt] have "mapping ! i \<notin> set (drop (Suc i) mapping)" by simp
    from piezoLegacyLoop_frame [OF r this] g m True show ?thesis by simp
  next
    case False
    with Suc.prems(3) have "Suc i \<le> j" by simp
    from Suc.hyps(1) [OF n r Suc.prems(2) this Suc.prems(4)] show ?thesis .
  qed
qed

lemma piezoLegacyLoop_appended:
  "piezoLegacyLoop strNum offs now mapping data prev i updated = Inr u' \<Longrightarrow>
   k \<in> set (drop i mapping) \<Longrightarrow>
   \<exists>newPoints. u' k = Some (combined now (oldArrOf prev k) newPoints)"
proof (induction "length mapping - i" arbitrary: i updated)
  case 0
  then show ?case by simp
next
  case (Suc n)
  from Suc.hyps(2) have lt: "i < length mapping" by simp
  have n: "n = length mapping - Suc i" using Suc.hyps(2) by simp
  from piezoLegacyLoop_Inr [OF Suc.prems(1) lt] obtain raw pts where
    r: "piezoLegacyLoop strNum offs now mapping data prev (Suc i)
          (updated(mapping ! i \<mapsto> combined now (oldArrOf prev (mapping ! i)) pts)) = Inr u'"
    by blast
  show ?case
  proof (cases "k \<in> set (drop (Suc i) mapping)")
    case True
    from Suc.hyps(1) [OF n r True] show ?thesis .
  next
    case False
    with Suc.prems(2) drop_step [OF lt] have k: "k = mapping ! i" by auto
    from piezoLegacyLoop_frame [OF r False] k show ?thesis by auto
  qed
qed

lemma piezoLegacyLoop_total:
  assumes "data \<noteq> JNull"
    "\<forall>j<length mapping. \<forall>raw. getProp data (sensorKey j) = Inr raw \<longrightarrow>
        (\<forall>obj \<in> set (readingsOf raw). \<not> readingThrows obj)"
  shows "\<exists>u'. piezoLegacyLoop strNum offs now mapping data prev i updated = Inr u'"
proof (induction "length mapping - i" arbitrary: i updated)
  case 0
  then have "\<not> i < length mapping" by simp
  from piezoLegacyLoop_stop [OF this] show ?case by simp
next
  case (Suc n)
  from Suc.hyps(2) have lt: "i < length mapping" by simp
  have n: "n = length mapping - Suc i" using Suc.hyps(2) by simp
  from getProp_nonnull [OF assms(1)] obtain raw where g: "getProp data (sensorKey i) = Inr raw"
    by blast
  with assms(2) lt have "\<forall>obj \<in> set (readingsOf raw). \<not> readingThrows obj" by blast
  from mapPoints_total [OF this] obtain pts where
    m: "mapPoints (legacyPoint strNum offs now) (readingsOf raw) = Inr pts" by blast
  from Suc.hyps(1) [OF n] show ?case by (simp add: piezoLegacyLoop_step [OF lt g m])
qed

lemma handleMessage_piezo:
  "handleMessage mode atob strNum browserNow now ''iot/piezo'' parsed st =
     handlePiezo mode atob strNum browserNow now [''A1'', ''B1'', ''C1'', ''A2''] parsed
       (st\<lparr> messageCount := messageCount st + 1,
            topicMessages := (topicMessages st)
              (''iot/piezo'' \<mapsto>
                 (case topicMessages st ''iot/piezo'' of None \<Rightarrow> 0 | Some c \<Rightarrow> c) + 1) \<rparr>)"
  by (simp add: handleMessage_def TOPIC_MAP_def)

lemma handleMessage_temp:
  "handleMessage mode atob strNum browserNow now ''iot/temp'' parsed st =
     handleTemp mode atob strNum parsed
       (st\<lparr> messageCount := messageCount st + 1,
            topicMessages := (topicMessages st)
              (''iot/temp'' \<mapsto>
                 (case topicMessages st ''iot/temp'' of None \<Rightarrow> 0 | Some c \<Rightarrow> c) + 1) \<rparr>)"
  by (simp add: handleMessage_def TOPIC_MAP_def)

lemma TOPIC_MAP_Some:
  "TOPIC_MAP topic = Some mapping \<longleftrightarrow>
     topic = ''iot/piezo'' \<and> mapping = [''A1'', ''B1'', ''C1'', ''A2'']"
  by (auto simp: TOPIC_MAP_def)

lemma handlePiezo_frame:
  assumes "handlePiezo mode atob strNum browserNow now mapping parsed st = Inr st'"
  shows "(\<forall>k. k \<notin> set mapping \<longrightarrow> piezo st' k = piezo st k) \<and>
         temp1 st' = temp1 st \<and> hum1 st' = hum1 st \<and> temp2 st' = temp2 st \<and>
         hum2 st' = hum2 st \<and> messageCount st' = messageCount st \<and>
         topicMessages st' = topicMessages st"
proof -
  have bin: "k \<notin> set mapping \<Longrightarrow> setPiezoBinary now mapping chans (piezo st) k = piezo st k"
    for k chans
    using piezoBinaryLoop_frame [of k 0 chans mapping now "piezo st" "piezo st"]
    by (auto simp: setPiezoBinary_def dest: in_set_takeD)
  have leg: "setPiezoLegacy strNum offs now mapping data (piezo st) = Inr u \<Longrightarrow>
             k \<notin> set mapping \<Longrightarrow> u k = piezo st k" for k offs data u
    using piezoLegacyLoop_frame [of strNum offs now mapping data "piezo st" 0 "piezo st" u k]
    by (simp add: setPiezoLegacy_def)
  from assms show ?thesis
    by (auto simp: handlePiezo_def bin split: option.splits sum.splits dest: leg)
qed

lemma handleTemp_frame:
  "\<exists>st'. handleTemp mode atob strNum parsed st = Inr st' \<and>
         piezo st' = piezo st \<and> temp2 st' = temp2 st \<and> hum2 st' = hum2 st \<and>
         offsetSamples st' = offsetSamples st \<and> offsetRef st' = offsetRef st \<and>
         messageCount st' = messageCount st \<and> topicMessages st' = topicMessages st"
  by (auto simp: handleTemp_def Let_def split: option.splits sum.splits)

lemma sensorKeys:
  "sensorKey 0 = ''Sensor1''" "sensorKey (Suc 0) = ''Sensor2''"
  "sensorKey (Suc (Suc 0)) = ''Sensor3''" "sensorKey (Suc (Suc (Suc 0))) = ''Sensor4''"
  by (simp_all add: sensorKey_def digitChar_def)

lemma exampleLegacy_updated:
  "setPiezoLegacy exampleStrNum 500 exampleNow [''A1'', ''B1'', ''C1'', ''A2''] exampleLegacy
     examplePrev =
   Inr (examplePrev
     (''A1'' \<mapsto> [\<lparr> time = 1732680280000, pval = 7 \<rparr>, \<lparr> time = 1732680281000, pval = 3 \<rparr>],
      ''B1'' \<mapsto> [\<lparr> time = 1732680282000, pval = 1 \<rparr>],
      ''C1'' \<mapsto> [], ''A2'' \<mapsto> []))"
  apply (simp add: setPiezoLegacy_def)
  apply (subst piezoLegacyLoop.simps, simp add: sensorKeys exampleLegacy_def getProp_def
      readingsOf_def legacyPoint_def orZero_def exampleStrNum_def combined_def oldArrOf_def
      examplePrev_def makeEmptyState_def SENSOR_KEYS_def exampleNow_def WINDOW_MS_def)+
  done

lemma examplePiezo5_decodes: "decodePiezoBytes examplePiezo5 = Some examplePiezo5Decoded"
  apply (simp add: examplePiezo5_def examplePiezo5Decoded_def decodePiezoBytes_def
      decodePiezoScan_def getUint32_def getUint16_def getUint8_def getInt16_def uint32At_def
      uint16At_def int16At_def sampleLoop.simps channelLoop.simps)
  apply (simp add: eval_nat_numeral)
  done

lemma exampleBinary_updated:
  "setPiezoBinary exampleNow [''A1'', ''B1'', ''C1'', ''A2''] (channels examplePiezoDecoded)
     examplePrev =
   examplePrev
     (''A1'' \<mapsto> [\<lparr> time = 1732680280000, pval = 7 \<rparr>, \<lparr> time = 1732680281000, pval = 1 \<rparr>],
      ''B1'' \<mapsto> [\<lparr> time = 1732680281000, pval = 5 / 2 \<rparr>,
                   \<lparr> time = 1732680281100, pval = - 1 / 100 \<rparr>])"
  apply (simp add: setPiezoBinary_def examplePiezoDecoded_def)
  apply (subst piezoBinaryLoop.simps, simp add: toPoint_def combined_def oldArrOf_def
      examplePrev_def makeEmptyState_def SENSOR_KEYS_def exampleNow_def WINDOW_MS_def)+
  done

text \<open>
  Claim C5. Each key the Base64 updater or the legacy updater writes ends up holding
  \<open>combined now oldArr newPoints\<close> for its previous window \<open>oldArr\<close>: every element of
  the stored sequence satisfies \<open>now - time \<le> 20000\<close>, and the stored elements are exactly
  the old and new points that satisfy it, so every older one is removed.
\<close>

theorem window_after_append:
  "(k \<in> set (take (length chans) mapping) \<longrightarrow>
      (\<exists>newPoints. setPiezoBinary now mapping chans prev k =
          Some (combined now (oldArrOf prev k) newPoints))) \<and>
   (k \<in> set mapping \<longrightarrow>
    setPiezoLegacy strNum offs now mapping data prev = Inr updated \<longrightarrow>
      (\<exists>newPoints. updated k = Some (combined now (oldArrOf prev k) newPoints))) \<and>
   (\<forall>d \<in> set (combined now oldArr newPoints). now - time d \<le> 20000) \<and>
   set (combined now oldArr newPoints) =
     {d \<in> set oldArr \<union> set newPoints. now - time d \<le> 20000}"
proof (intro conjI impI)
  assume "k \<in> set (take (length chans) mapping)"
  then have "k \<in> set (drop 0 (take (length chans) mapping))" by simp
  from piezoBinaryLoop_appended [OF this]
  show "\<exists>newPoints. setPiezoBinary now mapping chans prev k =
          Some (combined now (oldArrOf prev k) newPoints)"
    by (simp add: setPiezoBinary_def)
next
  assume "k \<in> set mapping"
    and "setPiezoLegacy strNum offs now mapping data prev = Inr updated"
  then have "piezoLegacyLoop strNum offs now mapping data prev 0 prev = Inr updated"
    "k \<in> set (drop 0 mapping)"
    by (simp_all add: setPiezoLegacy_def)
  then show "\<exists>newPoints. updated k = Some (combined now (oldArrOf prev k) newPoints)"
    by (rule piezoLegacyLoop_appended)
next
  show "\<forall>d \<in> set (combined now oldArr newPoints). now - time d \<le> 20000"
    using combined_window [of _ now oldArr newPoints] by (simp add: WINDOW_MS_def)
next
  show "set (combined now oldArr newPoints) =
     {d \<in> set oldArr \<union> set newPoints. now - time d \<le> 20000}"
    by (simp add: combined_set WINDOW_MS_def)
qed

theorem window_after_append_witness:
  "''A1'' \<in> set (take (length (channels examplePiezoDecoded)) [''A1'', ''B1'', ''C1'', ''A2'']) \<and>
   setPiezoBinary exampleNow [''A1'', ''B1'', ''C1'', ''A2''] (channels examplePiezoDecoded)
       examplePrev ''A1'' =
     Some [\<lparr> time = 1732680280000, pval = 7 \<rparr>, \<lparr> time = 1732680281000, pval = 1 \<rparr>] \<and>
   ''A1'' \<in> set [''A1'', ''B1'', ''C1'', ''A2''] \<and>
   setPiezoLegacy exampleStrNum 500 exampleNow [''A1'', ''B1'', ''C1'', ''A2''] exampleLegacy
       examplePrev =
     Inr (examplePrev
       (''A1'' \<mapsto> [\<lparr> time = 1732680280000, pval = 7 \<rparr>, \<lparr> time = 1732680281000, pval = 3 \<rparr>],
        ''B1'' \<mapsto> [\<lparr> time = 1732680282000, pval = 1 \<rparr>],
        ''C1'' \<mapsto> [], ''A2'' \<mapsto> [])) \<and>
   combined exampleNow (oldArrOf examplePrev ''A1'') [\<lparr> time = 1732680281000, pval = 3 \<rparr>] =
     [\<lparr> time = 1732680280000, pval = 7 \<rparr>, \<lparr> time = 1732680281000, pval = 3 \<rparr>] \<and>
   \<lparr> time = 1732680280000, pval = 7 \<rparr> \<in>
     set (combined exampleNow (oldArrOf examplePrev ''A1'')
            [\<lparr> time = 1732680281000, pval = 3 \<rparr>]) \<and>
   exampleNow - time \<lparr> time = 1732680280000, pval = 7 \<rparr> \<le> 20000 \<and>
   \<lparr> time = 1732680200000, pval = 9 \<rparr> \<in> set (oldArrOf examplePrev ''A1'') \<and>
   \<lparr> time = 1732680200000, pval = 9 \<rparr> \<notin>
     set (combined exampleNow (oldArrOf examplePrev ''A1'')
            [\<lparr> time = 1732680281000, pval = 3 \<rparr>])"
  using window_after_append
    [of "''A1''" "channels examplePiezoDecoded" "[''A1'', ''B1'', ''C1'', ''A2'']" exampleNow
      examplePrev exampleStrNum 500 exampleLegacy _ "oldArrOf examplePrev ''A1''"
      "[\<lparr> time = 1732680281000, pval = 3 \<rparr>]"]
    exampleLegacy_updated exampleBinary_updated
  by (simp add: examplePiezoDecoded_def combined_def oldArrOf_def examplePrev_def
      exampleNow_def WINDOW_MS_def)

declare offsetLoop.simps [simp del]

lemma exampleLegacy_offsets:
  "offsetLoop exampleLegacy 1732680281000 0 ([], 0) = Inr ([500], 500)"
  by (subst offsetLoop.simps)
    (simp add: sensorKeys exampleLegacy_def getProp_def firstSample_def sampleTs_def
      observe_def OFFSET_SAMPLE_SIZE_def)

lemma exampleLegacy_handled:
  "handleMessage Original exampleAtob exampleStrNum 1732680281000 exampleNow ''iot/piezo''
     (Some exampleLegacy) exampleState =
   Inr (exampleState
     \<lparr> piezo := examplePrev
         (''A1'' \<mapsto> [\<lparr> time = 1732680280000, pval = 7 \<rparr>, \<lparr> time = 1732680281000, pval = 3 \<rparr>],
          ''B1'' \<mapsto> [\<lparr> time = 1732680282000, pval = 1 \<rparr>],
          ''C1'' \<mapsto> [], ''A2'' \<mapsto> []),
       messageCount := 1,
       topicMessages := [''iot/piezo'' \<mapsto> 1],
       offsetRef := 500,
       offsetSamples := [500] \<rparr>)"
  by (simp add: handleMessage_piezo handlePiezo_def useBase64_def exampleState_def
      initialState_def exampleLegacy_offsets exampleLegacy_updated)

lemma mapPoints_nth:
  "mapPoints f arr = Inr pts \<Longrightarrow>
   length pts = length arr \<and> (\<forall>k<length arr. f (arr ! k) = Inr (pts ! k))"
proof (induction arr arbitrary: pts)
  case Nil
  then show ?case by simp
next
  case (Cons obj arr)
  from Cons.prems obtain p ps where
    p: "f obj = Inr p" and ps: "mapPoints f arr = Inr ps" and e: "pts = p # ps"
    by (auto split: sum.splits)
  from Cons.IH [OF ps] p e show ?case by (auto simp: nth_Cons split: nat.splits)
qed

lemma offsetLoop_nonnull:
  "data \<noteq> JNull \<Longrightarrow> \<exists>refs'. offsetLoop data browserNow i refs = Inr refs'"
proof (induction "4 - i" arbitrary: i)
  case 0
  then show ?case by (subst offsetLoop.simps) simp
next
  case (Suc n)
  then have lt: "i < 4" by simp
  have n: "n = 4 - Suc i" using Suc.hyps(2) by simp
  from getProp_nonnull [OF Suc.prems] obtain d where d: "getProp data (sensorKey i) = Inr d"
    by blast
  have "\<exists>r. sampleTs (firstSample d) = Inr r"
    by (auto simp: sampleTs_def getProp_def split: option.splits json.splits)
  then obtain r where r: "sampleTs (firstSample d) = Inr r" by blast
  show ?case
  proof (cases r)
    case None
    with Suc.hyps(1) [OF n Suc.prems] lt d r show ?thesis
      by (subst offsetLoop.simps) simp
  next
    case (Some ts)
    with lt d r show ?thesis by (subst offsetLoop.simps) simp
  qed
qed

text \<open>
  Claim C7, as amended. Take a message in the original mode that is not \<open>null\<close> and in
  which no reading of \<open>Sensor1\<close> to \<open>Sensor4\<close> is \<open>null\<close> or has, as its \<open>v\<close>, an object
  with a member \<open>toString\<close> or an array holding one. Then the handler returns; each of the
  four windows becomes its previous content followed by one point per reading, filtered
  by the time window; and the points are computed with the offset estimate the message
  leaves in \<open>offsetRef\<close>. The point of a reading object has the value \<open>Number(v) || 0\<close>:
  0 when \<open>v\<close> is missing, \<open>null\<close>, \<open>false\<close>, an object, or a string or array that does not
  convert to a number, and the converted number otherwise (1 for \<open>true\<close>). It is stamped
  with the clock \<open>now\<close> read in the updater when \<open>ts\<close> is not a number, and with \<open>ts\<close> minus
  the offset estimate when it is.
\<close>

theorem legacy_reading_sample:
  assumes "data \<noteq> JNull" "useBase64 mode data = Inr None"
    "\<forall>j<4. \<forall>raw. getProp data (sensorKey j) = Inr raw \<longrightarrow>
        (\<forall>obj \<in> set (readingsOf raw). \<not> readingThrows obj)"
  shows "(\<not> readingThrows (JObj kvs) \<longrightarrow>
      legacyPoint strNum offs now (JObj kvs) =
        Inr \<lparr> time = (case map_of (rev kvs) ''ts'' of Some (JNum t) \<Rightarrow> t - offs | _ \<Rightarrow> now),
              pval =
                (case map_of (rev kvs) ''v'' of
                   None \<Rightarrow> 0
                 | Some JNull \<Rightarrow> 0
                 | Some (JBool b) \<Rightarrow> (if b then 1 else 0)
                 | Some (JNum n) \<Rightarrow> n
                 | Some (JObj m) \<Rightarrow> 0
                 | Some s \<Rightarrow> (case strNum s of None \<Rightarrow> 0 | Some r \<Rightarrow> r)) \<rparr>) \<and>
    (\<exists>st'. handleMessage mode atob strNum browserNow now ''iot/piezo'' (Some data) st = Inr st' \<and>
       offsetLoop data browserNow 0 (offsetSamples st, offsetRef st) =
         Inr (offsetSamples st', offsetRef st') \<and>
       (\<forall>j<4. \<exists>raw pts.
          getProp data (sensorKey j) = Inr raw \<and>
          length pts = length (readingsOf raw) \<and>
          (\<forall>k<length (readingsOf raw).
             legacyPoint strNum (offsetRef st') now (readingsOf raw ! k) = Inr (pts ! k)) \<and>
          piezo st' ([''A1'', ''B1'', ''C1'', ''A2''] ! j) =
            Some (combined now (oldArrOf (piezo st) ([''A1'', ''B1'', ''C1'', ''A2''] ! j)) pts)))"
proof (rule conjI)
  show "\<not> readingThrows (JObj kvs) \<longrightarrow>
      legacyPoint strNum offs now (JObj kvs) =
        Inr \<lparr> time = (case map_of (rev kvs) ''ts'' of Some (JNum t) \<Rightarrow> t - offs | _ \<Rightarrow> now),
              pval =
                (case map_of (rev kvs) ''v'' of
                   None \<Rightarrow> 0
                 | Some JNull \<Rightarrow> 0
                 | Some (JBool b) \<Rightarrow> (if b then 1 else 0)
                 | Some (JNum n) \<Rightarrow> n
                 | Some (JObj m) \<Rightarrow> 0
                 | Some s \<Rightarrow> (case strNum s of None \<Rightarrow> 0 | Some r \<Rightarrow> r)) \<rparr>"
    by (simp add: legacyPoint_def readingThrows_def getProp_def orZero_def
        split: option.splits json.splits)
next
  let ?mapping = "[''A1'', ''B1'', ''C1'', ''A2'']"
  let ?counted = "st\<lparr> messageCount := messageCount st + 1,
            topicMessages := (topicMessages st)
              (''iot/piezo'' \<mapsto>
                 (case topicMessages st ''iot/piezo'' of None \<Rightarrow> 0 | Some c \<Rightarrow> c) + 1) \<rparr>"
  from offsetLoop_nonnull [OF assms(1)] obtain refs where
    o: "offsetLoop data browserNow 0 (offsetSamples st, offsetRef st) = Inr refs" by blast
  have l: "length ?mapping = 4" by simp
  have ok: "\<forall>j<length ?mapping. \<forall>raw. getProp data (sensorKey j) = Inr raw \<longrightarrow>
        (\<forall>obj \<in> set (readingsOf raw). \<not> readingThrows obj)"
    unfolding l by (rule assms(3))
  from piezoLegacyLoop_total [OF assms(1) ok, of strNum "snd refs" now "piezo st" 0 "piezo st"]
  obtain updated where
    u: "piezoLegacyLoop strNum (snd refs) now ?mapping data (piezo st) 0 (piezo st) = Inr updated"
    by blast
  let ?st' = "?counted\<lparr> offsetSamples := fst refs, offsetRef := snd refs, piezo := updated \<rparr>"
  have h: "handleMessage mode atob strNum browserNow now ''iot/piezo'' (Some data) st = Inr ?st'"
    using assms(2) o u
    by (simp add: handleMessage_piezo handlePiezo_def setPiezoLegacy_def)
  have d: "distinct ?mapping" by simp
  have "\<exists>raw pts.
          getProp data (sensorKey j) = Inr raw \<and>
          length pts = length (readingsOf raw) \<and>
          (\<forall>k<length (readingsOf raw).
             legacyPoint strNum (offsetRef ?st') now (readingsOf raw ! k) = Inr (pts ! k)) \<and>
          piezo ?st' (?mapping ! j) =
            Some (combined now (oldArrOf (piezo st) (?mapping ! j)) pts)"
    if "j < 4" for j
  proof -
    from that have j: "j < length ?mapping" by simp
    from piezoLegacyLoop_stored [OF u d _ j] obtain raw pts where
      g: "getProp data (sensorKey j) = Inr raw" and
      m: "mapPoints (legacyPoint strNum (snd refs) now) (readingsOf raw) = Inr pts" and
      p: "updated (?mapping ! j) = Some (combined now (oldArrOf (piezo st) (?mapping ! j)) pts)"
      by blast
    from mapPoints_nth [OF m] g p show ?thesis by auto
  qed
  with h o show "\<exists>st'. handleMessage mode atob strNum browserNow now ''iot/piezo'' (Some data) st =
         Inr st' \<and>
       offsetLoop data browserNow 0 (offsetSamples st, offsetRef st) =
         Inr (offsetSamples st', offsetRef st') \<and>
       (\<forall>j<4. \<exists>raw pts.
          getProp data (sensorKey j) = Inr raw \<and>
          length pts = length (readingsOf raw) \<and>
          (\<forall>k<length (readingsOf raw).
             legacyPoint strNum (offsetRef st') now (readingsOf raw ! k) = Inr (pts ! k)) \<and>
          piezo st' ([''A1'', ''B1'', ''C1'', ''A2''] ! j) =
            Some (combined now (oldArrOf (piezo st) ([''A1'', ''B1'', ''C1'', ''A2''] ! j)) pts))"
    by (intro exI [of _ ?st']) simp
qed

lemma exampleLegacy_readings:
  "\<forall>j<4. \<forall>raw. getProp exampleLegacy (sensorKey j) = Inr raw \<longrightarrow>
     (\<forall>obj \<in> set (readingsOf raw). \<not> readingThrows obj)"
proof (intro allI impI)
  fix j raw
  assume "j < (4::nat)" and g: "getProp exampleLegacy (sensorKey j) = Inr raw"
  then consider "j = 0" | "j = Suc 0" | "j = Suc (Suc 0)" | "j = Suc (Suc (Suc 0))"
    by fastforce
  then show "\<forall>obj \<in> set (readingsOf raw). \<not> readingThrows obj"
    using g
    by cases (auto simp: sensorKeys exampleLegacy_def getProp_def readingsOf_def
        readingThrows_def)
qed

theorem legacy_reading_sample_witness:
  "exampleLegacy \<noteq> JNull \<and> useBase64 Original exampleLegacy = Inr None \<and>
   \<not> readingThrows (JObj [(''v'', JBool True)]) \<and>
   legacyPoint exampleStrNum 500 exampleNow (JObj [(''v'', JBool True)]) =
     Inr \<lparr> time = exampleNow, pval = 1 \<rparr> \<and>
   (\<exists>st'. handleMessage Original exampleAtob exampleStrNum 1732680281000 exampleNow ''iot/piezo''
            (Some exampleLegacy) exampleState = Inr st' \<and>
          offsetRef st' = 500 \<and>
          piezo st' ''A1'' =
            Some [\<lparr> time = 1732680280000, pval = 7 \<rparr>, \<lparr> time = 1732680281000, pval = 3 \<rparr>] \<and>
          piezo st' ''B1'' = Some [\<lparr> time = 1732680282000, pval = 1 \<rparr>])"
proof -
  have a: "exampleLegacy \<noteq> JNull" by (simp add: exampleLegacy_def)
  have b: "useBase64 Original exampleLegacy = Inr None" by (simp add: useBase64_def)
  have c: "\<not> readingThrows (JObj [(''v'', JBool True)])"
    by (simp add: readingThrows_def getProp_def)
  from legacy_reading_sample [OF a b exampleLegacy_readings,
      of "[(''v'', JBool True)]" exampleStrNum 500 exampleNow exampleAtob 1732680281000
        exampleState]
  have p: "legacyPoint exampleStrNum 500 exampleNow (JObj [(''v'', JBool True)]) =
     Inr \<lparr> time = exampleNow, pval = 1 \<rparr>"
    and "\<exists>st'. handleMessage Original exampleAtob exampleStrNum 1732680281000 exampleNow
            ''iot/piezo'' (Some exampleLegacy) exampleState = Inr st'"
    using c by auto
  then obtain st' where
    h: "handleMessage Original exampleAtob exampleStrNum 1732680281000 exampleNow
            ''iot/piezo'' (Some exampleLegacy) exampleState = Inr st'" by blast
  with exampleLegacy_handled have "offsetRef st' = 500"
    "piezo st' ''A1'' =
       Some [\<lparr> time = 1732680280000, pval = 7 \<rparr>, \<lparr> time = 1732680281000, pval = 3 \<rparr>]"
    "piezo st' ''B1'' = Some [\<lparr> time = 1732680282000, pval = 1 \<rparr>]"
    by auto
  with a b c p h show ?thesis by blast
qed

text \<open>
  Claim C7 as stated fails for a \<open>v\<close> that is not a number: \<open>true\<close> gives the value 1 and
  the text \<open>12.5\<close> the value 12.5, not 0; and an object with a member \<open>toString\<close> makes
  \<open>Number\<close> throw inside the updater, which no \<open>try\<close> encloses.
\<close>

theorem legacy_value_counterexample:
  "legacyPoint exampleStrNum 500 exampleNow (JObj [(''v'', JBool True)]) =
     Inr \<lparr> time = exampleNow, pval = 1 \<rparr> \<and>
   legacyPoint exampleStrNum 500 exampleNow (JObj [(''v'', JStr ''12.5'')]) =
     Inr \<lparr> time = exampleNow, pval = 25 / 2 \<rparr> \<and>
   legacyPoint exampleStrNum 500 exampleNow (JObj [(''v'', JObj [(''toString'', JNum 1)])]) =
     Inl TypeError \<and>
   handleMessage Original exampleAtob exampleStrNum exampleNow exampleNow ''iot/piezo''
     (Some exampleToString) exampleState = Inl TypeError"
proof -
  have "piezoLegacyLoop exampleStrNum 0 exampleNow [''A1'', ''B1'', ''C1'', ''A2'']
          exampleToString examplePrev 0 examplePrev = Inl TypeError"
    by (subst piezoLegacyLoop.simps)
      (simp add: sensorKeys exampleToString_def getProp_def readingsOf_def legacyPoint_def)
  moreover have "offsetLoop exampleToString exampleNow 0 ([], 0) = Inr ([], 0)"
    by (subst offsetLoop.simps,
      simp add: sensorKeys exampleToString_def getProp_def firstSample_def sampleTs_def)+
  ultimately have "handleMessage Original exampleAtob exampleStrNum exampleNow exampleNow
     ''iot/piezo'' (Some exampleToString) exampleState = Inl TypeError"
    by (simp add: handleMessage_piezo handlePiezo_def useBase64_def exampleState_def
        initialState_def setPiezoLegacy_def)
  then show ?thesis
    by (simp add: legacyPoint_def getProp_def orZero_def exampleStrNum_def)
qed

lemma handlePiezo_binary:
  assumes "getProp data ''base64_sensordata'' = Inr (Some base64)" "truthy (Some base64)"
    "decodePiezoData atob base64 = Some decoded"
  shows "handlePiezo Base64 atob strNum browserNow now mapping (Some data) st =
           Inr (st\<lparr> piezo := setPiezoBinary now mapping (channels decoded) (piezo st) \<rparr>)"
  using assms by (simp add: handlePiezo_def useBase64_def)

text \<open>
  Claim C8. In Base64 mode a piezo batch that decodes on a mapped topic is stored without
  error: for every \<open>i\<close> below the minimum of the mapping length and the number of decoded
  channels, the window of the \<open>i\<close>-th key becomes its previous content followed by the
  points of the \<open>i\<close>-th decoded channel, filtered by the time window; every other window
  is unchanged; and decoded channels beyond the mapping length do not influence the
  result.
\<close>

theorem binary_channel_routing:
  assumes "TOPIC_MAP topic = Some mapping"
    "getProp data ''base64_sensordata'' = Inr (Some base64)" "truthy (Some base64)"
    "decodePiezoData atob base64 = Some decoded"
  shows "\<exists>st'. handleMessage Base64 atob strNum browserNow now topic (Some data) st = Inr st' \<and>
     (\<forall>i < min (length mapping) (length (channels decoded)).
        piezo st' (mapping ! i) =
          Some (combined now (oldArrOf (piezo st) (mapping ! i))
                  (map toPoint (channels decoded ! i)))) \<and>
     (\<forall>k. k \<notin> set (take (length (channels decoded)) mapping) \<longrightarrow> piezo st' k = piezo st k) \<and>
     piezo st' = setPiezoBinary now mapping (take (length mapping) (channels decoded)) (piezo st)"
proof -
  from assms(1) have t: "topic = ''iot/piezo''" and m: "mapping = [''A1'', ''B1'', ''C1'', ''A2'']"
    by (simp_all add: TOPIC_MAP_Some)
  have d: "distinct mapping" by (simp add: m)
  let ?p = "setPiezoBinary now mapping (channels decoded) (piezo st)"
  have "\<exists>st'. handleMessage Base64 atob strNum browserNow now topic (Some data) st = Inr st' \<and>
          piezo st' = ?p"
    by (simp add: t handleMessage_piezo handlePiezo_binary [OF assms(2-4)] m)
  then obtain st' where
    h: "handleMessage Base64 atob strNum browserNow now topic (Some data) st = Inr st'" and
    p: "piezo st' = ?p" by blast
  have s: "\<forall>i < min (length mapping) (length (channels decoded)).
        ?p (mapping ! i) =
          Some (combined now (oldArrOf (piezo st) (mapping ! i))
                  (map toPoint (channels decoded ! i)))"
    using piezoBinaryLoop_stored [OF d, of 0 _ "channels decoded" now "piezo st" "piezo st"]
    by (simp add: setPiezoBinary_def)
  have f: "\<forall>k. k \<notin> set (take (length (channels decoded)) mapping) \<longrightarrow> ?p k = piezo st k"
    using piezoBinaryLoop_frame [of _ 0 "channels decoded" mapping now "piezo st" "piezo st"]
    by (simp add: setPiezoBinary_def)
  from h s f setPiezoBinary_take [OF d, of now "channels decoded" "piezo st"]
  show ?thesis unfolding p [symmetric] by auto
qed

theorem binary_channel_routing_witness:
  "TOPIC_MAP ''iot/piezo'' = Some [''A1'', ''B1'', ''C1'', ''A2''] \<and>
   getProp exampleEnvelope5 ''base64_sensordata'' =
     Inr (Some (JStr ''WZpGZ2QAAQUBAAIAAwAEAAUA'')) \<and>
   truthy (Some (JStr ''WZpGZ2QAAQUBAAIAAwAEAAUA'')) \<and>
   decodePiezoData exampleAtob (JStr ''WZpGZ2QAAQUBAAIAAwAEAAUA'') = Some examplePiezo5Decoded \<and>
   (\<exists>st'. handleMessage Base64 exampleAtob exampleStrNum exampleNow exampleNow ''iot/piezo''
            (Some exampleEnvelope5) initialState = Inr st' \<and>
          piezo st' ''A2'' = Some [\<lparr> time = 1732680281000, pval = 4 / 100 \<rparr>] \<and>
          piezo st' ''B2'' = Some [])"
proof -
  have h1: "TOPIC_MAP ''iot/piezo'' = Some [''A1'', ''B1'', ''C1'', ''A2'']"
    by (simp add: TOPIC_MAP_def)
  have h2: "getProp exampleEnvelope5 ''base64_sensordata'' =
     Inr (Some (JStr ''WZpGZ2QAAQUBAAIAAwAEAAUA''))"
    by (simp add: exampleEnvelope5_def getProp_def)
  have h3: "truthy (Some (JStr ''WZpGZ2QAAQUBAAIAAwAEAAUA''))" by simp
  have h4: "decodePiezoData exampleAtob (JStr ''WZpGZ2QAAQUBAAIAAwAEAAUA'') =
     Some examplePiezo5Decoded"
    by (simp add: decodePiezoData_def exampleAtob_def examplePiezo5_decodes)
  from binary_channel_routing [OF h1 h2 h3 h4, of exampleStrNum exampleNow exampleNow initialState]
  obtain st' where
    h: "handleMessage Base64 exampleAtob exampleStrNum exampleNow exampleNow ''iot/piezo''
          (Some exampleEnvelope5) initialState = Inr st'" and
    s: "\<forall>i < min (length [''A1'', ''B1'', ''C1'', ''A2''])
                  (length (channels examplePiezo5Decoded)).
          piezo st' ([''A1'', ''B1'', ''C1'', ''A2''] ! i) =
            Some (combined exampleNow
                    (oldArrOf (piezo initialState) ([''A1'', ''B1'', ''C1'', ''A2''] ! i))
                    (map toPoint (channels examplePiezo5Decoded ! i)))" and
    f: "\<forall>k. k \<notin> set (take (length (channels examplePiezo5Decoded))
                          [''A1'', ''B1'', ''C1'', ''A2'']) \<longrightarrow>
            piezo st' k = piezo initialState k"
    by blast
  from s [rule_format, of 3] have "piezo st' ([''A1'', ''B1'', ''C1'', ''A2''] ! 3) =
            Some (combined exampleNow
                    (oldArrOf (piezo initialState) ([''A1'', ''B1'', ''C1'', ''A2''] ! 3))
                    (map toPoint (channels examplePiezo5Decoded ! 3)))"
    by (simp add: examplePiezo5Decoded_def)
  then have a: "piezo st' ''A2'' = Some [\<lparr> time = 1732680281000, pval = 4 / 100 \<rparr>]"
    by (simp add: examplePiezo5Decoded_def toPoint_def combined_def oldArrOf_def
        initialState_def makeEmptyState_def SENSOR_KEYS_def exampleNow_def WINDOW_MS_def)
  from f [rule_format, of "''B2''"] have "piezo st' ''B2'' = piezo initialState ''B2''"
    by (simp add: examplePiezo5Decoded_def)
  then have b: "piezo st' ''B2'' = Some []"
    by (simp add: initialState_def makeEmptyState_def SENSOR_KEYS_def)
  from h1 h2 h3 h4 h a b show ?thesis by blast
qed

lemma handlePiezo_counters:
  "handlePiezo mode atob strNum browserNow now mapping parsed
     (st\<lparr> messageCount := a, topicMessages := b \<rparr>) =
   map_sum id (\<lambda>s. s\<lparr> messageCount := a, topicMessages := b \<rparr>)
     (handlePiezo mode atob strNum browserNow now mapping parsed st)"
  by (simp add: handlePiezo_def split: option.splits sum.splits)

lemma handleTemp_counters:
  "handleTemp mode atob strNum parsed (st\<lparr> messageCount := a, topicMessages := b \<rparr>) =
   map_sum id (\<lambda>s. s\<lparr> messageCount := a, topicMessages := b \<rparr>)
     (handleTemp mode atob strNum parsed st)"
  by (simp add: handleTemp_def Let_def split: option.splits sum.splits)

lemma telemetry_counters:
  "telemetry (s\<lparr> messageCount := a, topicMessages := b \<rparr>) = telemetry s"
  by (simp add: telemetry_def)

lemma map_sum_telemetry_counters:
  "map_sum id telemetry (map_sum id (\<lambda>s. s\<lparr> messageCount := a, topicMessages := b \<rparr>) r) =
   map_sum id telemetry r"
  by (cases r) (simp_all add: telemetry_counters)

lemma handleMessage_counters:
  "map_sum id telemetry
     (handleMessage mode atob strNum browserNow now topic parsed
        (st\<lparr> messageCount := a, topicMessages := b \<rparr>)) =
   map_sum id telemetry (handleMessage mode atob strNum browserNow now topic parsed st)"
proof (cases "TOPIC_MAP topic")
  case None
  then show ?thesis
    by (simp add: handleMessage_def Let_def handleTemp_counters map_sum_telemetry_counters
        telemetry_counters)
next
  case (Some mapping)
  then show ?thesis
    by (simp add: handleMessage_def Let_def handlePiezo_counters map_sum_telemetry_counters)
qed

lemma handleMessage_caught:
  assumes "parsed = None \<or>
     (\<exists>data base64. parsed = Some data \<and> mode = Base64 \<and>
        getProp data ''base64_sensordata'' = Inr (Some base64) \<and> truthy (Some base64) \<and>
        (topic \<in> dom TOPIC_MAP \<longrightarrow> decodePiezoData atob base64 = None) \<and>
        (topic \<notin> dom TOPIC_MAP \<longrightarrow> decodeTempHumData atob base64 = None))"
  shows "handleMessage mode atob strNum browserNow now topic parsed st =
     Inr (st\<lparr> messageCount := messageCount st + 1,
              topicMessages := (topicMessages st)
                (topic \<mapsto> (case topicMessages st topic of None \<Rightarrow> 0 | Some c \<Rightarrow> c) + 1) \<rparr>)"
  using assms
proof
  assume "parsed = None"
  then show ?thesis
    by (simp add: handleMessage_def Let_def handlePiezo_def handleTemp_def split: option.splits)
next
  assume "\<exists>data base64. parsed = Some data \<and> mode = Base64 \<and>
        getProp data ''base64_sensordata'' = Inr (Some base64) \<and> truthy (Some base64) \<and>
        (topic \<in> dom TOPIC_MAP \<longrightarrow> decodePiezoData atob base64 = None) \<and>
        (topic \<notin> dom TOPIC_MAP \<longrightarrow> decodeTempHumData atob base64 = None)"
  then obtain data base64 where
    p: "parsed = Some data" "mode = Base64" and
    g: "getProp data ''base64_sensordata'' = Inr (Some base64)" "truthy (Some base64)" and
    dp: "topic \<in> dom TOPIC_MAP \<longrightarrow> decodePiezoData atob base64 = None" and
    dt: "topic \<notin> dom TOPIC_MAP \<longrightarrow> decodeTempHumData atob base64 = None"
    by blast
  from p g have u: "useBase64 mode data = Inr (Some base64)"
    by (simp add: useBase64_def)
  show ?thesis
  proof (cases "TOPIC_MAP topic")
    case None
    with dt have "decodeTempHumData atob base64 = None" by (simp add: domIff)
    with None p u show ?thesis
      by (simp add: handleMessage_def Let_def handleTemp_def)
  next
    case (Some mapping)
    with dp have "decodePiezoData atob base64 = None" by (simp add: domIff)
    with Some p u show ?thesis
      by (simp add: handleMessage_def Let_def handlePiezo_def)
  qed
qed

text \<open>
  Claim C9. A message whose payload is not valid JSON, or whose Base64 record does not
  decode, ends in the \<open>catch\<close> block or in the test \<open>if (decoded)\<close>: the handler returns
  normally, the windows, the gauges and the offset refs are unchanged, and every later
  message has the same effect on them as it would have had without the failed one.
\<close>

theorem bad_message_ignored:
  assumes "parsed = None \<or>
     (\<exists>data base64. parsed = Some data \<and> mode = Base64 \<and>
        getProp data ''base64_sensordata'' = Inr (Some base64) \<and> truthy (Some base64) \<and>
        (topic \<in> dom TOPIC_MAP \<longrightarrow> decodePiezoData atob base64 = None) \<and>
        (topic \<notin> dom TOPIC_MAP \<longrightarrow> decodeTempHumData atob base64 = None))"
  shows "\<exists>st'. handleMessage mode atob strNum browserNow now topic parsed st = Inr st' \<and>
     telemetry st' = telemetry st \<and>
     (\<forall>mode2 atob2 strNum2 browserNow2 now2 topic2 parsed2.
        map_sum id telemetry
          (handleMessage mode2 atob2 strNum2 browserNow2 now2 topic2 parsed2 st') =
        map_sum id telemetry
          (handleMessage mode2 atob2 strNum2 browserNow2 now2 topic2 parsed2 st))"
proof -
  let ?counted = "st\<lparr> messageCount := messageCount st + 1,
              topicMessages := (topicMessages st)
                (topic \<mapsto> (case topicMessages st topic of None \<Rightarrow> 0 | Some c \<Rightarrow> c) + 1) \<rparr>"
  have "handleMessage mode atob strNum browserNow now topic parsed st = Inr ?counted"
    using assms by (rule handleMessage_caught)
  moreover have "telemetry ?counted = telemetry st"
    by (rule telemetry_counters)
  moreover have "\<forall>mode2 atob2 strNum2 browserNow2 now2 topic2 parsed2.
        map_sum id telemetry
          (handleMessage mode2 atob2 strNum2 browserNow2 now2 topic2 parsed2 ?counted) =
        map_sum id telemetry
          (handleMessage mode2 atob2 strNum2 browserNow2 now2 topic2 parsed2 st)"
    by (intro allI handleMessage_counters)
  ultimately show ?thesis by blast
qed

theorem bad_message_ignored_witness:
  "(\<exists>st'. handleMessage Original exampleAtob exampleStrNum exampleNow exampleNow ''iot/piezo''
            None exampleState = Inr st' \<and>
          telemetry st' = telemetry exampleState) \<and>
   getProp exampleBadEnvelope ''base64_sensordata'' = Inr (Some (JStr ''!'')) \<and>
   truthy (Some (JStr ''!'')) \<and>
   decodeTempHumData exampleAtob (JStr ''!'') = None \<and>
   (\<exists>st'. handleMessage Base64 exampleAtob exampleStrNum exampleNow exampleNow ''iot/temp''
            (Some exampleBadEnvelope) exampleState = Inr st' \<and>
          telemetry st' = telemetry exampleState) \<and>
   getProp exampleTruncatedEnvelope ''base64_sensordata'' = Inr (Some (JStr ''WZpGZykJhRo='')) \<and>
   truthy (Some (JStr ''WZpGZykJhRo='')) \<and>
   decodePiezoData exampleAtob (JStr ''WZpGZykJhRo='') = None \<and>
   (\<exists>st'. handleMessage Base64 exampleAtob exampleStrNum exampleNow exampleNow ''iot/piezo''
            (Some exampleTruncatedEnvelope) exampleState = Inr st' \<and>
          telemetry st' = telemetry exampleState)"
proof -
  have g: "getProp exampleBadEnvelope ''base64_sensordata'' = Inr (Some (JStr ''!''))"
    by (simp add: exampleBadEnvelope_def getProp_def)
  have t: "truthy (Some (JStr ''!''))" by simp
  have dt: "decodeTempHumData exampleAtob (JStr ''!'') = None"
    by (simp add: decodeTempHumData_def exampleAtob_def)
  have g2: "getProp exampleTruncatedEnvelope ''base64_sensordata'' =
      Inr (Some (JStr ''WZpGZykJhRo=''))"
    by (simp add: exampleTruncatedEnvelope_def getProp_def)
  have t2: "truthy (Some (JStr ''WZpGZykJhRo=''))" by simp
  have "decodePiezoBytes exampleTempHum = None"
    by (rule decodePiezoBytes_short) (simp add: exampleTempHum_def)
  then have dp: "decodePiezoData exampleAtob (JStr ''WZpGZykJhRo='') = None"
    by (simp add: decodePiezoData_def exampleAtob_def)
  have tp: "''iot/piezo'' \<in> dom TOPIC_MAP" "''iot/temp'' \<notin> dom TOPIC_MAP"
    by (simp_all add: TOPIC_MAP_def)
  have "\<exists>st'. handleMessage Original exampleAtob exampleStrNum exampleNow exampleNow
            ''iot/piezo'' None exampleState = Inr st' \<and>
          telemetry st' = telemetry exampleState"
    using bad_message_ignored
      [of None Original "''iot/piezo''" exampleAtob exampleStrNum exampleNow exampleNow
        exampleState]
    by blast
  moreover have "\<exists>st'. handleMessage Base64 exampleAtob exampleStrNum exampleNow exampleNow
            ''iot/temp'' (Some exampleBadEnvelope) exampleState = Inr st' \<and>
          telemetry st' = telemetry exampleState"
    using bad_message_ignored
      [of "Some exampleBadEnvelope" Base64 "''iot/temp''" exampleAtob exampleStrNum exampleNow
        exampleNow exampleState] g t dt tp
    by blast
  moreover have "\<exists>st'. handleMessage Base64 exampleAtob exampleStrNum exampleNow exampleNow
            ''iot/piezo'' (Some exampleTruncatedEnvelope) exampleState = Inr st' \<and>
          telemetry st' = telemetry exampleState"
    using bad_message_ignored
      [of "Some exampleTruncatedEnvelope" Base64 "''iot/piezo''" exampleAtob exampleStrNum
        exampleNow exampleNow exampleState] g2 t2 dp tp
    by blast
  ultimately show ?thesis using g t dt g2 t2 dp by blast
qed

text \<open>
  Claim C10. A message on \<open>iot/piezo\<close> leaves every window other than \<open>A1\<close>, \<open>B1\<close>, \<open>C1\<close>
  and \<open>A2\<close> and all four gauges unchanged; a message on \<open>iot/temp\<close> is always handled,
  and leaves all windows, the second temperature and humidity and the offset refs
  unchanged.
\<close>

theorem message_frame:
  "(handleMessage mode atob strNum browserNow now ''iot/piezo'' parsed st = Inr st' \<longrightarrow>
      (\<forall>k. k \<notin> {''A1'', ''B1'', ''C1'', ''A2''} \<longrightarrow> piezo st' k = piezo st k) \<and>
      temp1 st' = temp1 st \<and> hum1 st' = hum1 st \<and> temp2 st' = temp2 st \<and>
      hum2 st' = hum2 st) \<and>
   (\<exists>st''. handleMessage mode atob strNum browserNow now ''iot/temp'' parsed st = Inr st'' \<and>
      piezo st'' = piezo st \<and> temp2 st'' = temp2 st \<and> hum2 st'' = hum2 st \<and>
      offsetSamples st'' = offsetSamples st \<and> offsetRef st'' = offsetRef st)"
proof (rule conjI)
  show "handleMessage mode atob strNum browserNow now ''iot/piezo'' parsed st = Inr st' \<longrightarrow>
      (\<forall>k. k \<notin> {''A1'', ''B1'', ''C1'', ''A2''} \<longrightarrow> piezo st' k = piezo st k) \<and>
      temp1 st' = temp1 st \<and> hum1 st' = hum1 st \<and> temp2 st' = temp2 st \<and>
      hum2 st' = hum2 st"
  proof (rule impI)
    assume "handleMessage mode atob strNum browserNow now ''iot/piezo'' parsed st = Inr st'"
    then have "handlePiezo mode atob strNum browserNow now [''A1'', ''B1'', ''C1'', ''A2'']
         parsed
         (st\<lparr> messageCount := messageCount st + 1,
              topicMessages := (topicMessages st)
                (''iot/piezo'' \<mapsto>
                   (case topicMessages st ''iot/piezo'' of None \<Rightarrow> 0 | Some c \<Rightarrow> c) + 1) \<rparr>) =
       Inr st'"
      by (simp only: handleMessage_piezo)
    from handlePiezo_frame [OF this]
    show "(\<forall>k. k \<notin> {''A1'', ''B1'', ''C1'', ''A2''} \<longrightarrow> piezo st' k = piezo st k) \<and>
        temp1 st' = temp1 st \<and> hum1 st' = hum1 st \<and> temp2 st' = temp2 st \<and>
        hum2 st' = hum2 st"
      by simp
  qed
next
  from handleTemp_frame [of mode atob strNum parsed
        "st\<lparr> messageCount := messageCount st + 1,
            topicMessages := (topicMessages st)
              (''iot/temp'' \<mapsto>
                 (case topicMessages st ''iot/temp'' of None \<Rightarrow> 0 | Some c \<Rightarrow> c) + 1) \<rparr>"]
  obtain st'' where
    "handleTemp mode atob strNum parsed
        (st\<lparr> messageCount := messageCount st + 1,
            topicMessages := (topicMessages st)
              (''iot/temp'' \<mapsto>
                 (case topicMessages st ''iot/temp'' of None \<Rightarrow> 0 | Some c \<Rightarrow> c) + 1) \<rparr>) =
      Inr st''"
    "piezo st'' = piezo st" "temp2 st'' = temp2 st" "hum2 st'' = hum2 st"
    "offsetSamples st'' = offsetSamples st" "offsetRef st'' = offsetRef st"
    by auto
  then show "\<exists>st''. handleMessage mode atob strNum browserNow now ''iot/temp'' parsed st =
        Inr st'' \<and>
      piezo st'' = piezo st \<and> temp2 st'' = temp2 st \<and> hum2 st'' = hum2 st \<and>
      offsetSamples st'' = offsetSamples st \<and> offsetRef st'' = offsetRef st"
    by (simp only: handleMessage_temp) blast
qed

theorem message_frame_witness:
  "handleMessage Original exampleAtob exampleStrNum 1732680281000 exampleNow ''iot/piezo''
     (Some exampleLegacy) exampleState =
   Inr (exampleState
     \<lparr> piezo := examplePrev
         (''A1'' \<mapsto> [\<lparr> time = 1732680280000, pval = 7 \<rparr>, \<lparr> time = 1732680281000, pval = 3 \<rparr>],
          ''B1'' \<mapsto> [\<lparr> time = 1732680282000, pval = 1 \<rparr>],
          ''C1'' \<mapsto> [], ''A2'' \<mapsto> []),
       messageCount := 1,
       topicMessages := [''iot/piezo'' \<mapsto> 1],
       offsetRef := 500,
       offsetSamples := [500] \<rparr>) \<and>
   ''B2'' \<notin> {''A1'', ''B1'', ''C1'', ''A2''} \<and>
   (examplePrev
         (''A1'' \<mapsto> [\<lparr> time = 1732680280000, pval = 7 \<rparr>, \<lparr> time = 1732680281000, pval = 3 \<rparr>],
          ''B1'' \<mapsto> [\<lparr> time = 1732680282000, pval = 1 \<rparr>],
          ''C1'' \<mapsto> [], ''A2'' \<mapsto> [])) ''B2'' = piezo exampleState ''B2'' \<and>
   (\<exists>st''. handleMessage Original exampleAtob exampleStrNum 1732680281000 exampleNow ''iot/temp''
            (Some exampleLegacy) exampleState = Inr st'' \<and>
          piezo st'' = piezo exampleState)"
  using message_frame
    [of Original exampleAtob exampleStrNum 1732680281000 exampleNow "Some exampleLegacy"
      exampleState
      "exampleState
     \<lparr> piezo := examplePrev
         (''A1'' \<mapsto> [\<lparr> time = 1732680280000, pval = 7 \<rparr>, \<lparr> time = 1732680281000, pval = 3 \<rparr>],
          ''B1'' \<mapsto> [\<lparr> time = 1732680282000, pval = 1 \<rparr>],
          ''C1'' \<mapsto> [], ''A2'' \<mapsto> []),
       messageCount := 1,
       topicMessages := [''iot/piezo'' \<mapsto> 1],
       offsetRef := 500,
       offsetSamples := [500] \<rparr>"]
    exampleLegacy_handled
  by auto

end
